theory Spec2Isabelle
  imports Complex_Main
begin

section \<open>Numbers and Qt helpers\<close>

text \<open>
  The widget computes on \<open>qreal\<close> (double), \<open>float\<close> and \<open>half\<close> values. All three are
  idealised as \<open>real\<close>: rounding between the three formats, infinities and NaN are outside
  this model. The one rounding that decides an integer is kept: the float product
  \<open>std::max({r, g, b}) * 1.10f\<close> of \<open>setColor\<close>, whose value is rounded to the new maximum
  luminance, is a parameter of the model (\<open>mul_1_10f\<close> below) and not the real product.
  Division by zero is the one place where \<open>real\<close> and IEEE arithmetic disagree on ordinary
  inputs (HOL gives 0); a claim below that depends on a quotient has the non-zero divisor
  among its hypotheses.

  \<open>qMin\<close>, \<open>qMax\<close>, \<open>qBound\<close>, \<open>qFuzzyCompare\<close> and \<open>qRound\<close> are the Qt 5 templates of
  \<open>qglobal.h\<close>, written out as they are defined there.
\<close>

definition qMin :: "real \<Rightarrow> real \<Rightarrow> real" where
  "qMin a b = (if a < b then a else b)"

definition qMax :: "real \<Rightarrow> real \<Rightarrow> real" where
  "qMax a b = (if a < b then b else a)"

definition qBound :: "real \<Rightarrow> real \<Rightarrow> real \<Rightarrow> real" where
  "qBound mn v mx = qMax mn (qMin mx v)"

definition qFuzzyCompare :: "real \<Rightarrow> real \<Rightarrow> bool" where
  "qFuzzyCompare p1 p2 \<longleftrightarrow> \<bar>p1 - p2\<bar> * 1000000000000 \<le> qMin \<bar>p1\<bar> \<bar>p2\<bar>"

text \<open>
  \<open>int\<close> has 32 bits. The C++ conversion from double to int truncates towards zero; for a
  value outside the range of \<open>int\<close> the language leaves the result undefined, and the x86
  conversion instructions return \<open>INT_MIN\<close>, which is what \<open>toInt\<close> returns there. \<open>addInt\<close>
  is the addition of two \<open>int\<close>s, wrapping around.
\<close>

definition toInt :: "real \<Rightarrow> int" where
  "toInt d =
     (let t = (if 0 \<le> d then \<lfloor>d\<rfloor> else \<lceil>d\<rceil>)
      in if - 2147483648 \<le> t \<and> t \<le> 2147483647 then t else - 2147483648)"

definition addInt :: "int \<Rightarrow> int \<Rightarrow> int" where
  "addInt a b = (a + b + 2147483648) mod 4294967296 - 2147483648"

definition qRound :: "real \<Rightarrow> int" where
  "qRound d = (if 0 \<le> d then toInt (d + 0.5)
               else addInt (toInt (d - real_of_int (toInt (d - 1)) + 0.5)) (toInt (d - 1)))"

text \<open>\<open>std::max({r, g, b})\<close>.\<close>

definition max3 :: "real \<Rightarrow> real \<Rightarrow> real \<Rightarrow> real" where
  "max3 r g b = max r (max g b)"

section \<open>Colour spaces, images and sub-widgets\<close>

text \<open>
  Only the identifiers that the widget compares against are named; every other colour model
  or depth is \<open>Other...\<close> with its id string.
\<close>

datatype colorModelId = RGBAColorModelID | OtherColorModelID string

datatype colorDepthId =
    Integer8BitsColorDepthID
  | Float16BitsColorDepthID
  | Float32BitsColorDepthID
  | Float64BitsColorDepthID
  | OtherColorDepthID string

record KoColorSpace =
  colorModelId :: colorModelId
  colorDepthId :: colorDepthId
  profile :: string

datatype surfaceColorSpace =
  DefaultColorSpace | sRGBColorSpace | scRGBColorSpace | bt2020PQColorSpace

text \<open>A pixel is \<open>Imf::Rgba\<close>: r, g, b, a. A normalised channel vector has four entries.\<close>

type_synonym pixel = "real \<times> real \<times> real \<times> real"

type_synonym channels = "real \<times> real \<times> real \<times> real"

record KisGLImageF16 =
  imageWidth :: int
  imageHeight :: int
  imageData :: "pixel list"

record KisClickableGLImageWidget =
  normalizedPos :: "real \<times> real"
  useHandleOpacity :: bool
  loadedImage :: KisGLImageF16

record KisSliderSpinBox =
  isEnabled :: bool
  minimum :: int
  maximum :: int
  sliderValue :: int

text \<open>
  The display colour converter is an object of the host application; the widget reads its
  painting colour space and calls two of its methods.
\<close>

record KisDisplayColorConverter =
  paintingColorSpace :: KoColorSpace
  canSkipDisplayConversion :: "KoColorSpace \<Rightarrow> bool"
  applyDisplayFilteringF32 :: "KoColorSpace \<Rightarrow> pixel list \<Rightarrow> pixel list"

section \<open>What the widget calls but does not define\<close>

text \<open>
  The functions below are called by \<open>kis_small_color_widget.cc\<close> and defined elsewhere
  (\<open>KoColorConversions\<close>, the colour space registry, \<open>KoColor\<close>, \<open>KisSliderSpinBox\<close>,
  \<open>KisOpenGLModeProber\<close>, \<open>kis_assert.h\<close>). They are parameters of the model, collected in
  one record; \<open>'c\<close> is the type of \<open>KoColor\<close> values.

  \<^item> \<open>RGBToHSV r g b\<close> and \<open>HSVToRGB h s v\<close> return their three out-parameters.
  \<^item> \<open>mul_1_10f m\<close> is the float product \<open>m * 1.10f\<close>: the product of \<open>m\<close> and the float
    nearest to 1.10, rounded to float.
  \<^item> \<open>rgb8\<close> is \<open>KoColorSpaceRegistry::instance()->rgb8()\<close>.
  \<^item> \<open>defaultProfile m d\<close> is the profile of the registry's \<open>colorSpace(m, d)\<close>.
  \<^item> \<open>convertedChannels cs c\<close> is \<open>c\<close> converted to \<open>cs\<close> and read by
    \<open>normalisedChannelsValue\<close>.
  \<^item> \<open>setValue s v\<close> is \<open>KisSliderSpinBox::setValue\<close>: the slider afterwards, and the
    value it emits with \<open>valueChanged\<close>, if it emits.
  \<^item> \<open>colorChanged_slots c\<close> lists the colours with which the slots connected to
    \<open>colorChanged\<close> call \<open>setColor\<close> back while the signal is being emitted.
  \<^item> \<open>safeAssertRecovers\<close> says whether a failed \<open>KIS_SAFE_ASSERT_RECOVER\<close> continues
    into its recovery branch (otherwise the program stops).
  \<^item> \<open>notifyChangedDefault\<close> is the default argument of \<open>setHSV\<close>'s fourth parameter,
    declared in the header.
\<close>

record 'c env =
  RGBToHSV :: "real \<Rightarrow> real \<Rightarrow> real \<Rightarrow> real \<times> real \<times> real"
  HSVToRGB :: "real \<Rightarrow> real \<Rightarrow> real \<Rightarrow> real \<times> real \<times> real"
  mul_1_10f :: "real \<Rightarrow> real"
  rgb8 :: KoColorSpace
  defaultProfile :: "colorModelId \<Rightarrow> colorDepthId \<Rightarrow> string"
  convertedChannels :: "KoColorSpace \<Rightarrow> 'c \<Rightarrow> channels"
  fromNormalisedChannelsValue :: "KoColorSpace \<Rightarrow> channels \<Rightarrow> 'c"
  convertTo :: "KoColorSpace \<Rightarrow> KoColorSpace \<Rightarrow> pixel list \<Rightarrow> pixel list"
  setValue :: "KisSliderSpinBox \<Rightarrow> int \<Rightarrow> KisSliderSpinBox \<times> int option"
  surfaceformatInUse :: surfaceColorSpace
  colorChanged_slots :: "'c \<Rightarrow> 'c list"
  safeAssertRecovers :: bool
  notifyChangedDefault :: bool

datatype error = NullPointerDereference | SafeAssertFailed

section \<open>The widget\<close>

text \<open>
  The fields of \<open>KisSmallColorWidget::Private\<close>, followed by the size of the \<open>QWidget\<close> and
  the log of the \<open>colorChanged\<close> signals emitted so far. A timer or signal compressor is the
  flag "started".
\<close>

record 'c KisSmallColorWidget =
  hue :: real
  "value" :: real
  saturation :: real
  updateAllowed :: bool
  updateTimer :: bool
  hueWidget :: KisClickableGLImageWidget
  valueWidget :: KisClickableGLImageWidget
  resizeUpdateCompressor :: bool
  valueSliderUpdateCompressor :: bool
  huePreferredHeight :: int
  dynamicRange :: "KisSliderSpinBox option"
  currentRelativeDynamicRange :: real
  displayColorConverter :: "KisDisplayColorConverter option"
  colorConverterConnections :: bool
  hasHDR :: bool
  hasHardwareHDR :: bool
  widgetSize :: "int \<times> int"
  colorChanged :: "'c list"

definition effectiveRelativeDynamicRange :: "'c KisSmallColorWidget \<Rightarrow> real" where
  "effectiveRelativeDynamicRange d = (if hasHDR d then currentRelativeDynamicRange d else 1.0)"

subsection \<open>Palette images\<close>

datatype FillPolicy = FillHPolicy | FillSVPolicy

fun getRGB :: "'c env \<Rightarrow> FillPolicy \<Rightarrow> real \<Rightarrow> real \<Rightarrow> real \<Rightarrow> nat \<Rightarrow> nat
    \<Rightarrow> real \<times> real \<times> real" where
  "getRGB E FillHPolicy h xPortionCoeff yPortionCoeff x y =
     HSVToRGB E (xPortionCoeff * real x * 360.0) 1.0 1.0"
| "getRGB E FillSVPolicy h xPortionCoeff yPortionCoeff x y =
     HSVToRGB E (h * 360.0) (xPortionCoeff * real x) (1.0 - yPortionCoeff * real y)"

text \<open>
  The two nested loops of \<open>uploadPaletteData\<close> walk the buffer row by row, four halves per
  pixel: the pixel of column \<open>x\<close> in row \<open>y\<close> is entry \<open>y * width + x\<close>.
\<close>

definition fillPixels :: "(nat \<Rightarrow> nat \<Rightarrow> pixel) \<Rightarrow> int \<Rightarrow> int \<Rightarrow> pixel list" where
  "fillPixels f w h = concat (map (\<lambda>y. map (\<lambda>x. f x y) [0..<nat w]) [0..<nat h])"

definition palettePixel :: "'c env \<Rightarrow> FillPolicy \<Rightarrow> 'c KisSmallColorWidget \<Rightarrow> int \<times> int
    \<Rightarrow> nat \<Rightarrow> nat \<Rightarrow> pixel" where
  "palettePixel E policy d sz x y =
     (let xPortionCoeff = 1.0 / real_of_int (fst sz);
          yPortionCoeff = 1.0 / real_of_int (snd sz);
          rangeCoeff = effectiveRelativeDynamicRange d;
          (r, g, b) = getRGB E policy (hue d) xPortionCoeff yPortionCoeff x y
      in (r * rangeCoeff, g * rangeCoeff, b * rangeCoeff, 1.0))"

definition outputColorSpace :: "'c env \<Rightarrow> KoColorSpace" where
  "outputColorSpace E =
     (let dflt = \<lparr>colorModelId = RGBAColorModelID, colorDepthId = Float32BitsColorDepthID,
                   profile = profile (rgb8 E)\<rparr>
      in if surfaceformatInUse E = sRGBColorSpace then dflt
         else if surfaceformatInUse E = scRGBColorSpace then
           \<lparr>colorModelId = RGBAColorModelID, colorDepthId = Float32BitsColorDepthID,
            profile = defaultProfile E RGBAColorModelID Float32BitsColorDepthID\<rparr>
         else dflt)"

definition generationColorSpace :: "'c env \<Rightarrow> 'c KisSmallColorWidget \<Rightarrow> KoColorSpace" where
  "generationColorSpace E d =
     (case displayColorConverter d of
        None \<Rightarrow> outputColorSpace E
      | Some conv \<Rightarrow>
          let cs = paintingColorSpace conv
          in if colorModelId cs \<noteq> RGBAColorModelID then outputColorSpace E
             else if colorDepthId cs \<noteq> Float32BitsColorDepthID then
               \<lparr>colorModelId = RGBAColorModelID, colorDepthId = Float32BitsColorDepthID,
                profile = profile cs\<rparr>
             else cs)"

definition skipsDisplayConversion :: "'c env \<Rightarrow> 'c KisSmallColorWidget \<Rightarrow> bool" where
  "skipsDisplayConversion E d =
     (case displayColorConverter d of
        None \<Rightarrow> True
      | Some conv \<Rightarrow> canSkipDisplayConversion conv (generationColorSpace E d))"

text \<open>
  \<open>uploadPaletteData\<close> returns the image handed to \<open>loadImage\<close>. The second branch filters
  the generated pixels for the display and converts them to the output colour space; its
  \<open>KIS_SAFE_ASSERT_RECOVER_RETURN\<close> on the converter leaves without loading an image.
\<close>

definition uploadPaletteData :: "'c env \<Rightarrow> FillPolicy \<Rightarrow> 'c KisSmallColorWidget \<Rightarrow> int \<times> int
    \<Rightarrow> KisGLImageF16 option" where
  "uploadPaletteData E policy d sz =
     (let generated = fillPixels (palettePixel E policy d sz) (fst sz) (snd sz)
      in if skipsDisplayConversion E d then
           Some \<lparr>imageWidth = fst sz, imageHeight = snd sz, imageData = generated\<rparr>
         else
           (case displayColorConverter d of
              None \<Rightarrow> None
            | Some conv \<Rightarrow>
                Some \<lparr>imageWidth = fst sz, imageHeight = snd sz,
                      imageData = convertTo E (generationColorSpace E d) (outputColorSpace E)
                        (applyDisplayFilteringF32 conv (generationColorSpace E d) generated)\<rparr>))"

definition loadImage :: "KisGLImageF16 option \<Rightarrow> KisClickableGLImageWidget
    \<Rightarrow> KisClickableGLImageWidget" where
  "loadImage img w = (case img of None \<Rightarrow> w | Some i \<Rightarrow> w\<lparr>loadedImage := i\<rparr>)"

definition updateHuePalette :: "'c env \<Rightarrow> 'c KisSmallColorWidget \<Rightarrow> 'c KisSmallColorWidget" where
  "updateHuePalette E d =
     d\<lparr>hueWidget := loadImage
          (uploadPaletteData E FillHPolicy d (fst (widgetSize d), huePreferredHeight d))
          (hueWidget d)\<rparr>"

definition updateSVPalette :: "'c env \<Rightarrow> 'c KisSmallColorWidget \<Rightarrow> 'c KisSmallColorWidget" where
  "updateSVPalette E d =
     d\<lparr>valueWidget := loadImage (uploadPaletteData E FillSVPolicy d (widgetSize d))
          (valueWidget d)\<rparr>"

definition slotUpdatePalettes :: "'c env \<Rightarrow> 'c KisSmallColorWidget \<Rightarrow> 'c KisSmallColorWidget" where
  "slotUpdatePalettes E d = updateSVPalette E (updateHuePalette E d)"

subsection \<open>Storing a colour\<close>

text \<open>
  \<open>setHSV\<close> (lines 136 to 153) in three parts: the clamped store, the optional notification,
  and the timers. \<open>setHSV_false\<close> is \<open>setHSV(h, s, v, false)\<close>, the form in which
  \<open>setColor\<close> and \<open>slotUpdateDynamicRange\<close> call it; \<open>setHSV\<close> itself follows
  \<open>tellColorChanged\<close> below. \<open>setNormalizedPos\<close> of the image widget is taken to store the
  position.
\<close>

definition setHSV_store :: "real \<Rightarrow> real \<Rightarrow> real \<Rightarrow> 'c KisSmallColorWidget
    \<Rightarrow> bool \<times> 'c KisSmallColorWidget" where
  "setHSV_store h s v d =
     (let h' = qBound 0.0 h 1.0;
          s' = qBound 0.0 s 1.0;
          v' = qBound 0.0 v 1.0;
          newH = (\<not> qFuzzyCompare (hue d) h')
      in (newH, d\<lparr>hue := h', value := v', saturation := s'\<rparr>))"

definition setHSV_timers :: "bool \<Rightarrow> 'c KisSmallColorWidget \<Rightarrow> 'c KisSmallColorWidget" where
  "setHSV_timers newH d =
     (if newH then d\<lparr>valueSliderUpdateCompressor := True\<rparr> else d)\<lparr>updateTimer := True\<rparr>"

definition setHSV_false :: "real \<Rightarrow> real \<Rightarrow> real \<Rightarrow> 'c KisSmallColorWidget
    \<Rightarrow> 'c KisSmallColorWidget" where
  "setHSV_false h s v d = (let (newH, d1) = setHSV_store h s v d in setHSV_timers newH d1)"

definition setNormalizedPos :: "real \<times> real \<Rightarrow> KisClickableGLImageWidget
    \<Rightarrow> KisClickableGLImageWidget" where
  "setNormalizedPos p w = w\<lparr>normalizedPos := p\<rparr>"

subsection \<open>Display configuration and dynamic range\<close>

definition isHDRColorSpace :: "KoColorSpace \<Rightarrow> bool" where
  "isHDRColorSpace cs \<longleftrightarrow>
     colorModelId cs = RGBAColorModelID \<and>
     (colorDepthId cs = Float16BitsColorDepthID \<or>
      colorDepthId cs = Float32BitsColorDepthID \<or>
      colorDepthId cs = Float64BitsColorDepthID)"

definition slotDisplayConfigurationChanged :: "'c env \<Rightarrow> 'c KisSmallColorWidget
    \<Rightarrow> 'c KisSmallColorWidget" where
  "slotDisplayConfigurationChanged E d =
     (let d1 = d\<lparr>hasHDR := False\<rparr>;
          d2 = (if hasHardwareHDR d1 then
                  (case displayColorConverter d1 of
                     None \<Rightarrow> d1
                   | Some conv \<Rightarrow> d1\<lparr>hasHDR := isHDRColorSpace (paintingColorSpace conv)\<rparr>)
                else d1);
          d3 = (case dynamicRange d2 of
                  None \<Rightarrow> d2
                | Some sl \<Rightarrow> d2\<lparr>dynamicRange := Some (sl\<lparr>isEnabled := hasHDR d2\<rparr>)\<rparr>);
          d4 = d3\<lparr>hueWidget := (hueWidget d3)\<lparr>useHandleOpacity := \<not> hasHDR d3\<rparr>,
                  valueWidget := (valueWidget d3)\<lparr>useHandleOpacity := \<not> hasHDR d3\<rparr>\<rparr>
      in slotUpdatePalettes E d4)"

definition slotUpdateDynamicRange :: "'c env \<Rightarrow> int \<Rightarrow> 'c KisSmallColorWidget
    \<Rightarrow> 'c KisSmallColorWidget" where
  "slotUpdateDynamicRange E maxLuminance d =
     (let oldRange = currentRelativeDynamicRange d;
          newRange = real_of_int maxLuminance / 80.0
      in if qFuzzyCompare oldRange newRange then d
         else
           let (r, g, b) = HSVToRGB E (hue d * 360.0) (saturation d) (value d);
               transformCoeff = newRange / oldRange;
               r' = qBound 0.0 (r * transformCoeff) 1.0;
               g' = qBound 0.0 (g * transformCoeff) 1.0;
               b' = qBound 0.0 (b * transformCoeff) 1.0;
               (denormHue, saturation', value') = RGBToHSV E r' g' b';
               d1 = d\<lparr>currentRelativeDynamicRange := newRange\<rparr>;
               d2 = slotUpdatePalettes E d1;
               d3 = setHSV_false (denormHue / 360.0) saturation' value' d2
           in d3\<lparr>hueWidget := setNormalizedPos (denormHue / 360.0, 0) (hueWidget d3),
                 valueWidget := setNormalizedPos (saturation', 1.0 - value') (valueWidget d3)\<rparr>)"

subsection \<open>setColor\<close>

text \<open>
  \<open>setColor\<close> (lines 155 to 215) is put together from its parts. First the colour space
  in which a colour is handled (lines 165 to 168, and 458 to 461 in \<open>tellColorChanged\<close>), and
  the channel order of its depth (lines 178 to 186, and 465 to 475).
\<close>

definition handlingColorSpace :: "'c env \<Rightarrow> KisDisplayColorConverter \<Rightarrow> KoColorSpace" where
  "handlingColorSpace E conv =
     (let cs = paintingColorSpace conv
      in if colorModelId cs \<noteq> RGBAColorModelID then rgb8 E else cs)"

definition readRGB :: "KoColorSpace \<Rightarrow> channels \<Rightarrow> real \<times> real \<times> real" where
  "readRGB cs channels =
     (case channels of (c0, c1, c2, c3) \<Rightarrow>
        if colorDepthId cs = Integer8BitsColorDepthID then (c2, c1, c0) else (c0, c1, c2))"

definition writeRGB :: "KoColorSpace \<Rightarrow> real \<Rightarrow> real \<Rightarrow> real \<Rightarrow> channels" where
  "writeRGB cs r g b =
     (if colorDepthId cs = Integer8BitsColorDepthID then (b, g, r, 1.0) else (r, g, b, 1.0))"

text \<open>
  The HDR branch of \<open>setColor\<close> (lines 188 to 201): the condition of the inner \<open>if\<close>, the
  local \<open>rangeCoeff\<close> after it, the new maximum luminance computed inside it, and the state
  after the two calls that publish it (lines 195 and 196).
  \<open>setValue\<close> on the slider emits \<open>valueChanged\<close>, which the constructor connected to
  \<open>slotUpdateDynamicRange\<close>.
\<close>

definition exceedsRange :: "'c KisSmallColorWidget \<Rightarrow> real \<Rightarrow> real \<Rightarrow> real \<Rightarrow> bool" where
  "exceedsRange d r g b \<longleftrightarrow>
     (let rangeCoeff = effectiveRelativeDynamicRange d
      in rangeCoeff < r \<or> rangeCoeff < g \<or> rangeCoeff < b)"

definition rangeCoeffFor :: "'c env \<Rightarrow> 'c KisSmallColorWidget \<Rightarrow> real \<Rightarrow> real \<Rightarrow> real
    \<Rightarrow> real" where
  "rangeCoeffFor E d r g b =
     (if exceedsRange d r g b then mul_1_10f E (max3 r g b)
      else effectiveRelativeDynamicRange d)"

definition newMaxLuminanceFor :: "'c env \<Rightarrow> 'c KisSmallColorWidget \<Rightarrow> real \<Rightarrow> real \<Rightarrow> real
    \<Rightarrow> int" where
  "newMaxLuminanceFor E d r g b = qRound (80.0 * rangeCoeffFor E d r g b)"

definition publishRange :: "'c env \<Rightarrow> int \<Rightarrow> 'c KisSmallColorWidget
    \<Rightarrow> error + 'c KisSmallColorWidget" where
  "publishRange E newMaxLuminance d =
     (let d1 = slotUpdateDynamicRange E newMaxLuminance d
      in (case dynamicRange d1 of
            None \<Rightarrow> Inl NullPointerDereference
          | Some sl \<Rightarrow>
              (let (sl', emitted) = setValue E sl newMaxLuminance;
                   d2 = d1\<lparr>dynamicRange := Some sl'\<rparr>
               in Inr (case emitted of
                         None \<Rightarrow> d2
                       | Some v \<Rightarrow> slotUpdateDynamicRange E v d2))))"

definition scaleChannels :: "'c env \<Rightarrow> 'c KisSmallColorWidget \<Rightarrow> real \<Rightarrow> real \<Rightarrow> real
    \<Rightarrow> error + ('c KisSmallColorWidget \<times> real \<times> real \<times> real)" where
  "scaleChannels E d r g b =
     (if hasHDR d then
        let rangeCoeff = rangeCoeffFor E d r g b
        in (case (if exceedsRange d r g b
                  then publishRange E (newMaxLuminanceFor E d r g b) d else Inr d) of
              Inl e \<Rightarrow> Inl e
            | Inr d' \<Rightarrow> Inr (d', r / rangeCoeff, g / rangeCoeff, b / rangeCoeff))
      else Inr (d, qBound 0.0 r 1.0, qBound 0.0 g 1.0, qBound 0.0 b 1.0))"

definition sliderAgreesWithHDR :: "'c KisSmallColorWidget \<Rightarrow> bool" where
  "sliderAgreesWithHDR d \<longleftrightarrow>
     (case dynamicRange d of None \<Rightarrow> True | Some sl \<Rightarrow> hasHDR d = isEnabled sl)"

text \<open>
  The condition of the first assertion (line 159), and the state in which \<open>setColor\<close> goes on
  after it: the recovery branch runs \<open>slotDisplayConfigurationChanged\<close>. \<open>storeRGB\<close> is the
  end of \<open>setColor\<close> (lines 208 to 214).
\<close>

definition afterRecovery :: "'c env \<Rightarrow> 'c KisSmallColorWidget \<Rightarrow> 'c KisSmallColorWidget" where
  "afterRecovery E d =
     (if sliderAgreesWithHDR d then d else slotDisplayConfigurationChanged E d)"

definition storeRGB :: "'c env \<Rightarrow> real \<Rightarrow> real \<Rightarrow> real \<Rightarrow> 'c KisSmallColorWidget
    \<Rightarrow> 'c KisSmallColorWidget" where
  "storeRGB E r g b d =
     (let (denormHue, saturation', value') = RGBToHSV E r g b;
          d1 = d\<lparr>hueWidget := setNormalizedPos (denormHue / 360.0, 0.0) (hueWidget d),
                  valueWidget := setNormalizedPos (saturation', 1.0 - value') (valueWidget d)\<rparr>
      in setHSV_false (denormHue / 360.0) saturation' value' d1)"

definition setColor :: "'c env \<Rightarrow> 'c \<Rightarrow> 'c KisSmallColorWidget \<Rightarrow> error + 'c KisSmallColorWidget" where
  "setColor E color d =
     (if \<not> updateAllowed d then Inr d
      else if \<not> sliderAgreesWithHDR d \<and> \<not> safeAssertRecovers E then Inl SafeAssertFailed
      else
        let d1 = afterRecovery E d
        in if \<not> (\<not> hasHDR d1 \<or> hasHardwareHDR d1) then
             (if safeAssertRecovers E then Inr d1 else Inl SafeAssertFailed)
           else
             (case displayColorConverter d1 of
                None \<Rightarrow> Inl NullPointerDereference
              | Some conv \<Rightarrow>
                  (let cs = handlingColorSpace E conv;
                       (r, g, b) = readRGB cs (convertedChannels E cs color)
                   in (case scaleChannels E d1 r g b of
                         Inl e \<Rightarrow> Inl e
                       | Inr (d2, r', g', b') \<Rightarrow> Inr (storeRGB E r' g' b' d2)))))"

subsection \<open>Telling the application\<close>

fun setColors :: "'c env \<Rightarrow> 'c list \<Rightarrow> 'c KisSmallColorWidget \<Rightarrow> error + 'c KisSmallColorWidget" where
  "setColors E [] d = Inr d"
| "setColors E (c # cs) d =
     (case setColor E c d of Inl e \<Rightarrow> Inl e | Inr d' \<Rightarrow> setColors E cs d')"

text \<open>
  Emitting \<open>colorChanged\<close> logs the colour and runs the connected slots, which call
  \<open>setColor\<close> back (the cycle the source's TODO wants removed).
\<close>

definition emitColorChanged :: "'c env \<Rightarrow> 'c \<Rightarrow> 'c KisSmallColorWidget
    \<Rightarrow> error + 'c KisSmallColorWidget" where
  "emitColorChanged E c d =
     setColors E (colorChanged_slots E c) (d\<lparr>colorChanged := colorChanged d @ [c]\<rparr>)"

definition outgoingRGB :: "'c env \<Rightarrow> 'c KisSmallColorWidget \<Rightarrow> real \<times> real \<times> real" where
  "outgoingRGB E d =
     (let (r, g, b) = HSVToRGB E (hue d * 360.0) (saturation d) (value d)
      in if hasHDR d then
           let rangeCoeff = effectiveRelativeDynamicRange d
           in (r * rangeCoeff, g * rangeCoeff, b * rangeCoeff)
         else (r, g, b))"

definition outgoingColor :: "'c env \<Rightarrow> KisDisplayColorConverter \<Rightarrow> 'c KisSmallColorWidget \<Rightarrow> 'c" where
  "outgoingColor E conv d =
     (let (r, g, b) = outgoingRGB E d;
          cs = handlingColorSpace E conv
      in fromNormalisedChannelsValue E cs (writeRGB cs r g b))"

definition tellColorChanged :: "'c env \<Rightarrow> 'c KisSmallColorWidget
    \<Rightarrow> error + 'c KisSmallColorWidget" where
  "tellColorChanged E d =
     (let d1 = d\<lparr>updateAllowed := False\<rparr>
      in (case displayColorConverter d1 of
            None \<Rightarrow> Inl NullPointerDereference
          | Some conv \<Rightarrow>
              (case emitColorChanged E (outgoingColor E conv d1) d1 of
                 Inl e \<Rightarrow> Inl e
               | Inr d2 \<Rightarrow> Inr (d2\<lparr>updateAllowed := True\<rparr>))))"

definition setHue :: "'c env \<Rightarrow> real \<Rightarrow> 'c KisSmallColorWidget \<Rightarrow> error + 'c KisSmallColorWidget" where
  "setHue E h d =
     (let h' = qBound 0.0 h 1.0
      in case tellColorChanged E (d\<lparr>hue := h'\<rparr>) of
           Inl e \<Rightarrow> Inl e
         | Inr d1 \<Rightarrow> Inr (d1\<lparr>valueSliderUpdateCompressor := True, updateTimer := True\<rparr>))"

definition setHSV :: "'c env \<Rightarrow> real \<Rightarrow> real \<Rightarrow> real \<Rightarrow> bool \<Rightarrow> 'c KisSmallColorWidget
    \<Rightarrow> error + 'c KisSmallColorWidget" where
  "setHSV E h s v notifyChanged d =
     (let (newH, d1) = setHSV_store h s v d
      in case (if notifyChanged then tellColorChanged E d1 else Inr d1) of
           Inl e \<Rightarrow> Inl e
         | Inr d2 \<Rightarrow> Inr (setHSV_timers newH d2))"

definition slotHueSliderChanged :: "'c env \<Rightarrow> real \<times> real \<Rightarrow> 'c KisSmallColorWidget
    \<Rightarrow> error + 'c KisSmallColorWidget" where
  "slotHueSliderChanged E pos d =
     (let newHue = fst pos
      in if \<not> qFuzzyCompare newHue (hue d) then setHue E newHue d else Inr d)"

definition slotValueSliderChanged :: "'c env \<Rightarrow> real \<times> real \<Rightarrow> 'c KisSmallColorWidget
    \<Rightarrow> error + 'c KisSmallColorWidget" where
  "slotValueSliderChanged E pos d =
     (let newSaturation = fst pos;
          newValue = 1.0 - snd pos
      in if \<not> qFuzzyCompare newSaturation (saturation d) \<or> \<not> qFuzzyCompare newValue (value d)
         then setHSV E (hue d) newSaturation newValue (notifyChangedDefault E) d
         else Inr d)"

definition setDisplayColorConverter :: "'c env \<Rightarrow> KisDisplayColorConverter option
    \<Rightarrow> 'c KisSmallColorWidget \<Rightarrow> 'c KisSmallColorWidget" where
  "setDisplayColorConverter E converter d =
     slotDisplayConfigurationChanged E
       (d\<lparr>displayColorConverter := converter,
          colorConverterConnections := (case converter of None \<Rightarrow> False | Some _ \<Rightarrow> True)\<rparr>)"

definition resizeEvent :: "int \<times> int \<Rightarrow> 'c KisSmallColorWidget \<Rightarrow> 'c KisSmallColorWidget" where
  "resizeEvent sz d = d\<lparr>widgetSize := sz, resizeUpdateCompressor := True\<rparr>"

subsection \<open>Construction and runs\<close>

text \<open>
  The constructor, given \<open>KisOpenGLModeProber::instance()->useHDRMode()\<close>, the size of the
  new widget, and the freshly constructed image widget and slider. The slider is not yet
  connected when its value is set.
\<close>

definition KisSmallColorWidget_new :: "'c env \<Rightarrow> bool \<Rightarrow> int \<times> int \<Rightarrow> KisClickableGLImageWidget
    \<Rightarrow> KisSliderSpinBox \<Rightarrow> 'c KisSmallColorWidget" where
  "KisSmallColorWidget_new E useHDRMode sz glWidget slider =
     slotUpdatePalettes E
       \<lparr>hue = 0.0, value = 0, saturation = 0, updateAllowed = True, updateTimer = False,
        hueWidget = glWidget, valueWidget = glWidget,
        resizeUpdateCompressor = False, valueSliderUpdateCompressor = False,
        huePreferredHeight = 32,
        dynamicRange =
          (if useHDRMode
           then Some (fst (setValue E (slider\<lparr>minimum := 80, maximum := 10000\<rparr>)
                             (toInt (80.0 * 1.0))))
           else None),
        currentRelativeDynamicRange = 1.0,
        displayColorConverter = None, colorConverterConnections = False,
        hasHDR = False, hasHardwareHDR = useHDRMode,
        widgetSize = sz, colorChanged = []\<rparr>"

text \<open>
  What can happen to a widget: a call of one of its methods or slots, a timer running out,
  or the application changing the converter object behind the widget's pointer.
\<close>

datatype 'c event =
    SetHue real
  | SetHSV real real real bool
  | SetColor 'c
  | SlotHueSliderChanged "real \<times> real"
  | SlotValueSliderChanged "real \<times> real"
  | SlotUpdateDynamicRange int
  | SetDisplayColorConverter "KisDisplayColorConverter option"
  | SlotDisplayConfigurationChanged
  | ConverterMutated KisDisplayColorConverter
  | ResizeEvent "int \<times> int"
  | ResizeCompressorTimeout
  | ValueSliderCompressorTimeout
  | UpdateTimerTimeout

fun step :: "'c env \<Rightarrow> 'c event \<Rightarrow> 'c KisSmallColorWidget \<Rightarrow> error + 'c KisSmallColorWidget" where
  "step E (SetHue h) d = setHue E h d"
| "step E (SetHSV h s v n) d = setHSV E h s v n d"
| "step E (SetColor c) d = setColor E c d"
| "step E (SlotHueSliderChanged pos) d = slotHueSliderChanged E pos d"
| "step E (SlotValueSliderChanged pos) d = slotValueSliderChanged E pos d"
| "step E (SlotUpdateDynamicRange m) d = Inr (slotUpdateDynamicRange E m d)"
| "step E (SetDisplayColorConverter conv) d = Inr (setDisplayColorConverter E conv d)"
| "step E SlotDisplayConfigurationChanged d = Inr (slotDisplayConfigurationChanged E d)"
| "step E (ConverterMutated conv) d =
     Inr (case displayColorConverter d of
            None \<Rightarrow> d
          | Some _ \<Rightarrow> d\<lparr>displayColorConverter := Some conv\<rparr>)"
| "step E (ResizeEvent sz) d = Inr (resizeEvent sz d)"
| "step E ResizeCompressorTimeout d =
     Inr (slotUpdatePalettes E (d\<lparr>resizeUpdateCompressor := False\<rparr>))"
| "step E ValueSliderCompressorTimeout d =
     Inr (updateSVPalette E (d\<lparr>valueSliderUpdateCompressor := False\<rparr>))"
| "step E UpdateTimerTimeout d = Inr (d\<lparr>updateTimer := False\<rparr>)"

fun run :: "'c env \<Rightarrow> 'c event list \<Rightarrow> 'c KisSmallColorWidget \<Rightarrow> error + 'c KisSmallColorWidget" where
  "run E [] d = Inr d"
| "run E (e # es) d = (case step E e d of Inl x \<Rightarrow> Inl x | Inr d' \<Rightarrow> run E es d')"

section \<open>Predicates of the claims\<close>

definition hsvInUnit :: "'c KisSmallColorWidget \<Rightarrow> bool" where
  "hsvInUnit d \<longleftrightarrow>
     0 \<le> hue d \<and> hue d \<le> 1 \<and> 0 \<le> saturation d \<and> saturation d \<le> 1 \<and>
     0 \<le> value d \<and> value d \<le> 1"

definition hdrNeedsHardware :: "'c KisSmallColorWidget \<Rightarrow> bool" where
  "hdrNeedsHardware d \<longleftrightarrow> (hasHDR d \<longrightarrow> hasHardwareHDR d)"

text \<open>
  The events in which \<open>slotDisplayConfigurationChanged\<close> runs: the slot itself,
  \<open>setDisplayColorConverter\<close>, and a \<open>setColor\<close> whose first assertion fails.
\<close>

definition runsDisplayConfigurationChanged :: "'c event \<Rightarrow> 'c KisSmallColorWidget \<Rightarrow> bool" where
  "runsDisplayConfigurationChanged e d =
     (case e of
        SetDisplayColorConverter _ \<Rightarrow> True
      | SlotDisplayConfigurationChanged \<Rightarrow> True
      | SetColor _ \<Rightarrow> updateAllowed d \<and> \<not> sliderAgreesWithHDR d
      | _ \<Rightarrow> False)"

text \<open>
  The constructor gives the slider the range 80 to 10000; an event comes from the slider when
  the luminance it carries is at least 80.
\<close>

definition fromSlider :: "'c event \<Rightarrow> bool" where
  "fromSlider e = (case e of SlotUpdateDynamicRange m \<Rightarrow> 80 \<le> m | _ \<Rightarrow> True)"


section \<open>A sample environment\<close>

text \<open>
  Concrete values on which the model runs. A colour is its channel vector. The two
  conversions of \<open>sampleEnv\<close> are stand-ins that keep the hue at 0 (red); they are not the
  functions of \<open>KoColorConversions\<close>. The float nearest to 1.10 is 9227469 / 8388608; the
  sample multiplies by it without rounding, which is the float product where the other factor
  is a power of two, as in the samples below. The sample slider clamps to its range and always
  emits.
\<close>

definition sampleEnv :: "channels env" where
  "sampleEnv =
     \<lparr>RGBToHSV = (\<lambda>r g b. (0, (if max3 r g b = 0 then 0
                                 else 1 - min r (min g b) / max3 r g b), max3 r g b)),
      HSVToRGB = (\<lambda>h s v. (v, v * (1 - s), v * (1 - s))),
      mul_1_10f = (\<lambda>m. m * (9227469 / 8388608)),
      rgb8 = \<lparr>colorModelId = RGBAColorModelID, colorDepthId = Integer8BitsColorDepthID,
               profile = ''sRGB''\<rparr>,
      defaultProfile = (\<lambda>m d. ''default''),
      convertedChannels = (\<lambda>cs c. c),
      fromNormalisedChannelsValue = (\<lambda>cs v. v),
      convertTo = (\<lambda>src dst px. px),
      setValue = (\<lambda>sl v. (let v' = max (minimum sl) (min (maximum sl) v)
                            in (sl\<lparr>sliderValue := v'\<rparr>, Some v'))),
      surfaceformatInUse = sRGBColorSpace,
      colorChanged_slots = (\<lambda>c. [c, (0, 0, 0, 1)]),
      safeAssertRecovers = True,
      notifyChangedDefault = True\<rparr>"

definition sampleGLWidget :: KisClickableGLImageWidget where
  "sampleGLWidget = \<lparr>normalizedPos = (0, 0), useHandleOpacity = True,
     loadedImage = \<lparr>imageWidth = 0, imageHeight = 0, imageData = []\<rparr>\<rparr>"

definition sampleSlider :: KisSliderSpinBox where
  "sampleSlider = \<lparr>isEnabled = True, minimum = 0, maximum = 99, sliderValue = 0\<rparr>"

definition sampleConverter :: "colorDepthId \<Rightarrow> KisDisplayColorConverter" where
  "sampleConverter depth =
     \<lparr>paintingColorSpace = \<lparr>colorModelId = RGBAColorModelID, colorDepthId = depth,
                             profile = ''sRGB''\<rparr>,
      canSkipDisplayConversion = (\<lambda>cs. True),
      applyDisplayFilteringF32 = (\<lambda>cs px. px)\<rparr>"

text \<open>A new widget, and the widget after it has been given a converter of some depth.\<close>

definition sampleWidget :: "bool \<Rightarrow> channels KisSmallColorWidget" where
  "sampleWidget useHDRMode =
     KisSmallColorWidget_new sampleEnv useHDRMode (1, 1) sampleGLWidget sampleSlider"

definition sampleShown :: "bool \<Rightarrow> colorDepthId \<Rightarrow> channels KisSmallColorWidget" where
  "sampleShown useHDRMode depth =
     setDisplayColorConverter sampleEnv (Some (sampleConverter depth)) (sampleWidget useHDRMode)"

definition sampleSized :: "channels KisSmallColorWidget" where
  "sampleSized =
     (sampleShown False Float32BitsColorDepthID)\<lparr>hue := 1 / 2, widgetSize := (4, 2)\<rparr>"



text \<open>A widget whose converter paints in a colour space that is not RGBA.\<close>

definition sampleCMYK :: "channels KisSmallColorWidget" where
  "sampleCMYK =
     (sampleShown False Float32BitsColorDepthID)
       \<lparr>saturation := 1 / 2, value := 1,
        displayColorConverter := Some
          ((sampleConverter Float32BitsColorDepthID)
             \<lparr>paintingColorSpace :=
                \<lparr>colorModelId = OtherColorModelID ''CMYKA'',
                 colorDepthId = Float32BitsColorDepthID, profile = ''cmyk''\<rparr>\<rparr>)\<rparr>"

section \<open>Lemmas\<close>

subsection \<open>Clamping and rounding\<close>

lemma qBound_range: "mn \<le> mx \<Longrightarrow> mn \<le> qBound mn v mx \<and> qBound mn v mx \<le> mx"
  by (simp add: qBound_def qMax_def qMin_def)

lemma qBound_unit: "0 \<le> qBound 0 v 1" "qBound 0 v 1 \<le> 1"
  using qBound_range [of 0 1 v] by simp_all


lemma qRound_round:
  assumes "0 \<le> d" and "d + 1 / 2 < 2147483648"
  shows "qRound d = round d"
proof -
  have lo: "0 \<le> \<lfloor>d + 1 / 2\<rfloor>" using assms(1) by simp
  have hi: "\<lfloor>d + 1 / 2\<rfloor> \<le> 2147483647" using assms(2) by linarith
  show ?thesis using assms(1) lo hi by (simp add: qRound_def toInt_def round_def Let_def)
qed

lemma qRound_overflow:
  assumes "0 \<le> d" and "2147483648 \<le> d + 1 / 2"
  shows "qRound d = - 2147483648"
proof -
  have "2147483648 \<le> \<lfloor>d + 1 / 2\<rfloor>" using assms(2) by linarith
  then show ?thesis using assms(1) by (simp add: qRound_def toInt_def Let_def)
qed

lemma qRound_from_80:
  assumes "80 \<le> d"
  shows "80 \<le> qRound d \<or> qRound d \<le> 0"
proof (cases "d + 1 / 2 < 2147483648")
  case True
  have "80 \<le> round d" using assms by (simp add: round_def)
  then show ?thesis using qRound_round [OF _ True] assms by simp
next
  case False
  then show ?thesis using qRound_overflow [of d] assms by simp
qed

lemma qFuzzyCompare_signs: "a \<le> 0 \<Longrightarrow> 1 \<le> b \<Longrightarrow> \<not> qFuzzyCompare a b"
  by (simp add: qFuzzyCompare_def qMin_def)

subsection \<open>The pixel buffer\<close>

text \<open>Entry \<open>y * width + x\<close> of the buffer is the pixel the loops compute for \<open>(x, y)\<close>.\<close>

lemma fillPixels_length: "length (fillPixels f w h) = nat h * nat w"
proof -
  have "length (concat (map (\<lambda>y. map (\<lambda>x. f x y) [0..<m]) [0..<n])) = n * m" for m n
    by (induction n) simp_all
  then show ?thesis by (simp add: fillPixels_def)
qed

lemma fillPixels_nth:
  assumes "x < nat w" "y < nat h"
  shows "fillPixels f w h ! (y * nat w + x) = f x y"
proof -
  have rows: "concat (map (\<lambda>y. map (\<lambda>x. f x y) [0..<m]) [0..<n]) ! (y * m + x) = f x y"
    if "x < m" "y < n" for m n
    using that(2)
  proof (induction n)
    case 0
    then show ?case by simp
  next
    case (Suc n)
    have len: "length (concat (map (\<lambda>y. map (\<lambda>x. f x y) [0..<m]) [0..<n])) = n * m"
      by (induction n) simp_all
    show ?case
    proof (cases "y < n")
      case True
      then have "Suc y * m \<le> n * m" by (intro mult_le_mono1) simp
      then have "y * m + x < n * m" using that(1) by simp
      then show ?thesis using Suc.IH [OF True] len by (simp add: nth_append)
    next
      case False
      then have "y = n" using Suc.prems by simp
      then show ?thesis using len that(1) by (simp add: nth_append)
    qed
  qed
  show ?thesis unfolding fillPixels_def using rows [OF assms] .
qed

lemma palettePixel_hue:
  assumes "0 < w"
  shows "palettePixel E FillHPolicy d (w, h) x y =
     (case HSVToRGB E (360 * real x / real_of_int w) 1 1 of
        (r, g, b) \<Rightarrow>
          (r * effectiveRelativeDynamicRange d, g * effectiveRelativeDynamicRange d,
           b * effectiveRelativeDynamicRange d, 1))"
proof -
  have "1 / real_of_int w * real x * 360 = 360 * real x / real_of_int w" by simp
  then show ?thesis by (simp add: palettePixel_def Let_def mult.commute)
qed

lemma palettePixel_sv:
  "palettePixel E FillSVPolicy d (w, h) x y =
     (case HSVToRGB E (hue d * 360) (real x / real_of_int w) (1 - real y / real_of_int h) of
        (r, g, b) \<Rightarrow>
          (r * effectiveRelativeDynamicRange d, g * effectiveRelativeDynamicRange d,
           b * effectiveRelativeDynamicRange d, 1))"
  by (simp add: palettePixel_def Let_def)

lemma uploadPaletteData_skip:
  assumes "skipsDisplayConversion E d"
  shows "uploadPaletteData E policy d sz =
     Some \<lparr>imageWidth = fst sz, imageHeight = snd sz,
           imageData = fillPixels (palettePixel E policy d sz) (fst sz) (snd sz)\<rparr>"
  using assms by (simp add: uploadPaletteData_def)

lemma updateHuePalette_skip:
  assumes "skipsDisplayConversion E d"
  shows "loadedImage (hueWidget (updateHuePalette E d)) =
     \<lparr>imageWidth = fst (widgetSize d), imageHeight = huePreferredHeight d,
      imageData = fillPixels
        (palettePixel E FillHPolicy d (fst (widgetSize d), huePreferredHeight d))
        (fst (widgetSize d)) (huePreferredHeight d)\<rparr>"
  by (simp add: updateHuePalette_def uploadPaletteData_skip [OF assms] loadImage_def)

lemma updateSVPalette_skip:
  assumes "skipsDisplayConversion E d"
  shows "loadedImage (valueWidget (updateSVPalette E d)) =
     \<lparr>imageWidth = fst (widgetSize d), imageHeight = snd (widgetSize d),
      imageData = fillPixels (palettePixel E FillSVPolicy d (widgetSize d))
        (fst (widgetSize d)) (snd (widgetSize d))\<rparr>"
  by (simp add: updateSVPalette_def uploadPaletteData_skip [OF assms] loadImage_def)

subsection \<open>What each operation leaves alone\<close>

text \<open>
  The palette updates write the two image widgets only; the other operations are described
  field by field, as far as the claims need.
\<close>

lemma slotUpdatePalettes_fields:
  "hue (slotUpdatePalettes E d) = hue d"
  "value (slotUpdatePalettes E d) = value d"
  "saturation (slotUpdatePalettes E d) = saturation d"
  "hasHDR (slotUpdatePalettes E d) = hasHDR d"
  "hasHardwareHDR (slotUpdatePalettes E d) = hasHardwareHDR d"
  "currentRelativeDynamicRange (slotUpdatePalettes E d) = currentRelativeDynamicRange d"
  "dynamicRange (slotUpdatePalettes E d) = dynamicRange d"
  "displayColorConverter (slotUpdatePalettes E d) = displayColorConverter d"
  "updateAllowed (slotUpdatePalettes E d) = updateAllowed d"
  by (simp_all add: slotUpdatePalettes_def updateSVPalette_def updateHuePalette_def)

lemma updateSVPalette_fields:
  "hue (updateSVPalette E d) = hue d"
  "value (updateSVPalette E d) = value d"
  "saturation (updateSVPalette E d) = saturation d"
  "hasHDR (updateSVPalette E d) = hasHDR d"
  "hasHardwareHDR (updateSVPalette E d) = hasHardwareHDR d"
  by (simp_all add: updateSVPalette_def)

lemma setHSV_false_fields:
  "hue (setHSV_false h s v d) = qBound 0 h 1"
  "saturation (setHSV_false h s v d) = qBound 0 s 1"
  "value (setHSV_false h s v d) = qBound 0 v 1"
  "hasHDR (setHSV_false h s v d) = hasHDR d"
  "hasHardwareHDR (setHSV_false h s v d) = hasHardwareHDR d"
  "currentRelativeDynamicRange (setHSV_false h s v d) = currentRelativeDynamicRange d"
  "dynamicRange (setHSV_false h s v d) = dynamicRange d"
  "displayColorConverter (setHSV_false h s v d) = displayColorConverter d"
  "updateAllowed (setHSV_false h s v d) = updateAllowed d"
  by (simp_all add: setHSV_false_def setHSV_store_def setHSV_timers_def Let_def)

lemma slotUpdateDynamicRange_fields:
  "hasHDR (slotUpdateDynamicRange E m d) = hasHDR d"
  "hasHardwareHDR (slotUpdateDynamicRange E m d) = hasHardwareHDR d"
  "dynamicRange (slotUpdateDynamicRange E m d) = dynamicRange d"
  "displayColorConverter (slotUpdateDynamicRange E m d) = displayColorConverter d"
  "updateAllowed (slotUpdateDynamicRange E m d) = updateAllowed d"
  by (simp_all add: slotUpdateDynamicRange_def Let_def setHSV_false_fields
      slotUpdatePalettes_fields split: prod.splits)

lemma slotUpdateDynamicRange_range:
  "currentRelativeDynamicRange (slotUpdateDynamicRange E m d) =
     (if qFuzzyCompare (currentRelativeDynamicRange d) (real_of_int m / 80)
      then currentRelativeDynamicRange d else real_of_int m / 80)"
  by (simp add: slotUpdateDynamicRange_def Let_def setHSV_false_fields
      slotUpdatePalettes_fields split: prod.splits)



lemma slotDisplayConfigurationChanged_fields:
  "hue (slotDisplayConfigurationChanged E d) = hue d"
  "value (slotDisplayConfigurationChanged E d) = value d"
  "saturation (slotDisplayConfigurationChanged E d) = saturation d"
  "hasHardwareHDR (slotDisplayConfigurationChanged E d) = hasHardwareHDR d"
  "displayColorConverter (slotDisplayConfigurationChanged E d) = displayColorConverter d"
  "currentRelativeDynamicRange (slotDisplayConfigurationChanged E d) = currentRelativeDynamicRange d"
  "updateAllowed (slotDisplayConfigurationChanged E d) = updateAllowed d"
  by (simp_all add: slotDisplayConfigurationChanged_def Let_def slotUpdatePalettes_fields
      split: option.splits)

lemma slotDisplayConfigurationChanged_hasHDR:
  "hasHDR (slotDisplayConfigurationChanged E d) \<longleftrightarrow>
     hasHardwareHDR d \<and>
     (case displayColorConverter d of
        None \<Rightarrow> False
      | Some conv \<Rightarrow> isHDRColorSpace (paintingColorSpace conv))"
  by (simp add: slotDisplayConfigurationChanged_def Let_def slotUpdatePalettes_fields
      split: option.splits)

lemma afterRecovery_agrees: "sliderAgreesWithHDR d \<Longrightarrow> afterRecovery E d = d"
  by (simp add: afterRecovery_def)

lemma afterRecovery_fields:
  "hasHardwareHDR (afterRecovery E d) = hasHardwareHDR d"
  "displayColorConverter (afterRecovery E d) = displayColorConverter d"
  "currentRelativeDynamicRange (afterRecovery E d) = currentRelativeDynamicRange d"
  "updateAllowed (afterRecovery E d) = updateAllowed d"
  by (simp_all add: afterRecovery_def slotDisplayConfigurationChanged_fields)

lemma publishRange_fields:
  assumes "publishRange E m d = Inr d'"
  shows "hasHDR d' = hasHDR d" "hasHardwareHDR d' = hasHardwareHDR d"
    "displayColorConverter d' = displayColorConverter d" "updateAllowed d' = updateAllowed d"
  using assms
  by (auto simp add: publishRange_def Let_def slotUpdateDynamicRange_fields
      split: option.splits prod.splits)

lemma scaleChannels_fields:
  assumes "scaleChannels E d r g b = Inr (d', r', g', b')"
  shows "hasHDR d' = hasHDR d" "hasHardwareHDR d' = hasHardwareHDR d"
    "displayColorConverter d' = displayColorConverter d" "updateAllowed d' = updateAllowed d"
  using assms
  by (auto simp add: scaleChannels_def Let_def publishRange_fields
      split: if_splits sum.splits)

lemma scaleChannels_noHDR:
  "\<not> hasHDR d \<Longrightarrow>
     scaleChannels E d r g b = Inr (d, qBound 0 r 1, qBound 0 g 1, qBound 0 b 1)"
  by (simp add: scaleChannels_def)

lemma storeRGB_fields:
  "hasHDR (storeRGB E r g b d) = hasHDR d"
  "hasHardwareHDR (storeRGB E r g b d) = hasHardwareHDR d"
  "displayColorConverter (storeRGB E r g b d) = displayColorConverter d"
  "updateAllowed (storeRGB E r g b d) = updateAllowed d"
  by (simp_all add: storeRGB_def Let_def setHSV_false_fields split: prod.splits)

lemma storeRGB_range:
  "currentRelativeDynamicRange (storeRGB E r g b d) = currentRelativeDynamicRange d"
  by (simp add: storeRGB_def Let_def setHSV_false_fields split: prod.splits)

lemma storeRGB_hsv_fields:
  "hue (storeRGB E r g b d) = qBound 0 (fst (RGBToHSV E r g b) / 360) 1"
  "saturation (storeRGB E r g b d) = qBound 0 (fst (snd (RGBToHSV E r g b))) 1"
  "value (storeRGB E r g b d) = qBound 0 (snd (snd (RGBToHSV E r g b))) 1"
  by (simp_all add: storeRGB_def Let_def setHSV_false_fields split: prod.splits)

lemma new_fields:
  "hue (KisSmallColorWidget_new E hw sz gl sl) = 0"
  "saturation (KisSmallColorWidget_new E hw sz gl sl) = 0"
  "value (KisSmallColorWidget_new E hw sz gl sl) = 0"
  "hasHardwareHDR (KisSmallColorWidget_new E hw sz gl sl) = hw"
  "currentRelativeDynamicRange (KisSmallColorWidget_new E hw sz gl sl) = 1"
  "displayColorConverter (KisSmallColorWidget_new E hw sz gl sl) = None"
  "updateAllowed (KisSmallColorWidget_new E hw sz gl sl)"
  by (simp_all add: KisSmallColorWidget_new_def slotUpdatePalettes_fields)

lemma setDisplayColorConverter_fields:
  "hue (setDisplayColorConverter E c d) = hue d"
  "saturation (setDisplayColorConverter E c d) = saturation d"
  "value (setDisplayColorConverter E c d) = value d"
  "hasHardwareHDR (setDisplayColorConverter E c d) = hasHardwareHDR d"
  "currentRelativeDynamicRange (setDisplayColorConverter E c d) = currentRelativeDynamicRange d"
  "displayColorConverter (setDisplayColorConverter E c d) = c"
  "updateAllowed (setDisplayColorConverter E c d) = updateAllowed d"
  "hasHDR (setDisplayColorConverter E c d) \<longleftrightarrow>
     hasHardwareHDR d \<and>
     (case c of None \<Rightarrow> False | Some conv \<Rightarrow> isHDRColorSpace (paintingColorSpace conv))"
  by (simp_all add: setDisplayColorConverter_def slotDisplayConfigurationChanged_fields
      slotDisplayConfigurationChanged_hasHDR)

subsection \<open>The guard of setColor\<close>

text \<open>
  With \<open>updateAllowed\<close> false \<open>setColor\<close> does nothing, which gives \<open>tellColorChanged\<close> in
  closed form.
\<close>

lemma setColor_blocked: "\<not> updateAllowed d \<Longrightarrow> setColor E c d = Inr d"
  by (simp add: setColor_def)

lemma setColors_blocked: "\<not> updateAllowed d \<Longrightarrow> setColors E cs d = Inr d"
  by (induction cs) (simp_all add: setColor_blocked)

lemma tellColorChanged_result:
  "tellColorChanged E d =
     (case displayColorConverter d of
        None \<Rightarrow> Inl NullPointerDereference
      | Some conv \<Rightarrow>
          Inr (d\<lparr>updateAllowed := True,
                 colorChanged := colorChanged d @
                   [outgoingColor E conv (d\<lparr>updateAllowed := False\<rparr>)]\<rparr>))"
  by (simp add: tellColorChanged_def emitColorChanged_def Let_def setColors_blocked
      split: option.splits)

lemma outgoingRGB_updateAllowed: "outgoingRGB E (d\<lparr>updateAllowed := a\<rparr>) = outgoingRGB E d"
  by (simp add: outgoingRGB_def effectiveRelativeDynamicRange_def Let_def split: prod.splits)


lemma setHue_fields:
  assumes "setHue E h d = Inr d'"
  shows "hasHDR d' = hasHDR d" "hasHardwareHDR d' = hasHardwareHDR d"
    "currentRelativeDynamicRange d' = currentRelativeDynamicRange d"
  using assms
  by (auto simp add: setHue_def Let_def tellColorChanged_result split: sum.splits option.splits)

lemma setHSV_fields:
  assumes "setHSV E h s v n d = Inr d'"
  shows "hasHDR d' = hasHDR d" "hasHardwareHDR d' = hasHardwareHDR d"
    "currentRelativeDynamicRange d' = currentRelativeDynamicRange d"
  using assms
  by (auto simp add: setHSV_def setHSV_store_def setHSV_timers_def Let_def tellColorChanged_result
      split: sum.splits option.splits if_splits)

subsection \<open>The invariant on hue, saturation and value\<close>

lemma slotUpdateDynamicRange_hsv: "hsvInUnit d \<Longrightarrow> hsvInUnit (slotUpdateDynamicRange E m d)"
  by (simp add: slotUpdateDynamicRange_def Let_def hsvInUnit_def setHSV_false_fields
      qBound_unit split: prod.splits)

lemma storeRGB_hsv: "hsvInUnit (storeRGB E r g b d)"
  by (simp add: storeRGB_def Let_def hsvInUnit_def setHSV_false_fields qBound_unit
      split: prod.splits)

lemma afterRecovery_hsv: "hsvInUnit (afterRecovery E d) = hsvInUnit d"
  by (simp add: afterRecovery_def hsvInUnit_def slotDisplayConfigurationChanged_fields)

lemma setColor_hsv:
  assumes "setColor E c d = Inr d'" "hsvInUnit d"
  shows "hsvInUnit d'"
  using assms
  by (auto simp add: setColor_def Let_def afterRecovery_hsv storeRGB_hsv
      split: if_splits option.splits sum.splits prod.splits)

lemma tellColorChanged_hsv:
  assumes "tellColorChanged E d = Inr d'"
  shows "hsvInUnit d' = hsvInUnit d"
  using assms by (auto simp add: tellColorChanged_result hsvInUnit_def split: option.splits)

lemma setHue_hsv:
  assumes "setHue E h d = Inr d'" "hsvInUnit d"
  shows "hsvInUnit d'"
proof -
  obtain d1 where t: "tellColorChanged E (d\<lparr>hue := qBound 0 h 1\<rparr>) = Inr d1"
    and d': "d' = d1\<lparr>valueSliderUpdateCompressor := True, updateTimer := True\<rparr>"
    using assms(1) by (auto simp add: setHue_def Let_def split: sum.splits)
  have "hsvInUnit (d\<lparr>hue := qBound 0 h 1\<rparr>)"
    using assms(2) by (simp add: hsvInUnit_def qBound_unit)
  then have "hsvInUnit d1" using tellColorChanged_hsv [OF t] by simp
  then show ?thesis by (simp add: d' hsvInUnit_def)
qed

lemma setHSV_store_hsv: "hsvInUnit (snd (setHSV_store h s v d))"
  by (simp add: setHSV_store_def Let_def hsvInUnit_def qBound_unit)

lemma setHSV_timers_inv:
  "hsvInUnit (setHSV_timers n d) = hsvInUnit d"
  "hdrNeedsHardware (setHSV_timers n d) = hdrNeedsHardware d"
  by (simp_all add: setHSV_timers_def hsvInUnit_def hdrNeedsHardware_def)

lemma setHSV_hsv:
  assumes "setHSV E h s v n d = Inr d'"
  shows "hsvInUnit d'"
proof -
  obtain newH d1 where st: "setHSV_store h s v d = (newH, d1)" by (cases "setHSV_store h s v d")
  have d1: "hsvInUnit d1" using setHSV_store_hsv [of h s v d] st by simp
  obtain d2 where mid: "(if n then tellColorChanged E d1 else Inr d1) = Inr d2"
    and d': "d' = setHSV_timers newH d2"
    using assms st by (auto simp add: setHSV_def split: sum.splits)
  have "hsvInUnit d2"
    using mid d1 tellColorChanged_hsv [of E d1 d2] by (cases n) simp_all
  then show ?thesis by (simp add: d' setHSV_timers_inv)
qed

lemma step_hsv:
  assumes "step E e d = Inr d'" "hsvInUnit d"
  shows "hsvInUnit d'"
proof (cases e)
  case (SetHue h)
  then show ?thesis using assms setHue_hsv by simp
next
  case (SetHSV h s v n)
  then show ?thesis using assms setHSV_hsv by simp
next
  case (SetColor c)
  then show ?thesis using assms setColor_hsv by simp
next
  case (SlotHueSliderChanged pos)
  then show ?thesis using assms setHue_hsv
    by (auto simp add: slotHueSliderChanged_def Let_def split: if_splits)
next
  case (SlotValueSliderChanged pos)
  then show ?thesis using assms setHSV_hsv
    by (auto simp add: slotValueSliderChanged_def Let_def split: if_splits)
next
  case (SlotUpdateDynamicRange m)
  then show ?thesis using assms slotUpdateDynamicRange_hsv by auto
next
  case (SetDisplayColorConverter conv)
  then show ?thesis using assms
    by (auto simp add: setDisplayColorConverter_def hsvInUnit_def
        slotDisplayConfigurationChanged_fields)
next
  case SlotDisplayConfigurationChanged
  then show ?thesis using assms
    by (auto simp add: hsvInUnit_def slotDisplayConfigurationChanged_fields)
next
  case (ConverterMutated conv)
  then show ?thesis using assms by (auto simp add: hsvInUnit_def split: option.splits)
next
  case (ResizeEvent sz)
  then show ?thesis using assms by (auto simp add: hsvInUnit_def resizeEvent_def)
next
  case ResizeCompressorTimeout
  then show ?thesis using assms by (auto simp add: hsvInUnit_def slotUpdatePalettes_fields)
next
  case ValueSliderCompressorTimeout
  then show ?thesis using assms by (auto simp add: hsvInUnit_def updateSVPalette_fields)
next
  case UpdateTimerTimeout
  then show ?thesis using assms by (auto simp add: hsvInUnit_def)
qed

lemma run_hsv: "run E es d = Inr d' \<Longrightarrow> hsvInUnit d \<Longrightarrow> hsvInUnit d'"
proof (induction es arbitrary: d)
  case Nil
  then show ?case by simp
next
  case (Cons e es)
  then show ?case by (auto split: sum.splits dest: step_hsv)
qed

lemma new_hsv: "hsvInUnit (KisSmallColorWidget_new E hw sz gl sl)"
  by (simp add: KisSmallColorWidget_new_def hsvInUnit_def slotUpdatePalettes_fields)

subsection \<open>The invariant on the HDR flags\<close>

lemma slotDisplayConfigurationChanged_hdr: "hdrNeedsHardware (slotDisplayConfigurationChanged E d)"
  by (simp add: hdrNeedsHardware_def slotDisplayConfigurationChanged_hasHDR
      slotDisplayConfigurationChanged_fields)

lemma afterRecovery_hdr: "hdrNeedsHardware d \<Longrightarrow> hdrNeedsHardware (afterRecovery E d)"
  by (simp add: afterRecovery_def slotDisplayConfigurationChanged_hdr)

lemma setColor_hdr:
  assumes "setColor E c d = Inr d'" "hdrNeedsHardware d"
  shows "hdrNeedsHardware d'"
proof -
  have sc: "hdrNeedsHardware x'" if "scaleChannels E x r g b = Inr (x', r', g', b')" "hdrNeedsHardware x"
    for x x' :: "'a KisSmallColorWidget" and r g b r' g' b'
    using that scaleChannels_fields(1,2) [OF that(1)] by (simp add: hdrNeedsHardware_def)
  have st: "hdrNeedsHardware (storeRGB E r g b x) = hdrNeedsHardware x"
    for x :: "'a KisSmallColorWidget" and r g b
    by (simp add: hdrNeedsHardware_def storeRGB_fields)
  show ?thesis using assms afterRecovery_hdr [OF assms(2), of E]
    by (auto simp add: setColor_def Let_def st
      split: if_splits option.splits sum.splits prod.splits dest: sc)
qed

lemma tellColorChanged_hdr:
  assumes "tellColorChanged E d = Inr d'"
  shows "hdrNeedsHardware d' = hdrNeedsHardware d"
  using assms by (auto simp add: tellColorChanged_result hdrNeedsHardware_def split: option.splits)

lemma setHue_hdr:
  assumes "setHue E h d = Inr d'" "hdrNeedsHardware d"
  shows "hdrNeedsHardware d'"
proof -
  obtain d1 where t: "tellColorChanged E (d\<lparr>hue := qBound 0 h 1\<rparr>) = Inr d1"
    and d': "d' = d1\<lparr>valueSliderUpdateCompressor := True, updateTimer := True\<rparr>"
    using assms(1) by (auto simp add: setHue_def Let_def split: sum.splits)
  have "hdrNeedsHardware (d\<lparr>hue := qBound 0 h 1\<rparr>)"
    using assms(2) by (simp add: hdrNeedsHardware_def)
  then have "hdrNeedsHardware d1" using tellColorChanged_hdr [OF t] by simp
  then show ?thesis by (simp add: d' hdrNeedsHardware_def)
qed

lemma setHSV_store_hdr: "hdrNeedsHardware (snd (setHSV_store h s v d)) = hdrNeedsHardware d"
  by (simp add: setHSV_store_def Let_def hdrNeedsHardware_def)

lemma setHSV_hdr:
  assumes "setHSV E h s v n d = Inr d'" "hdrNeedsHardware d"
  shows "hdrNeedsHardware d'"
proof -
  obtain newH d1 where st: "setHSV_store h s v d = (newH, d1)" by (cases "setHSV_store h s v d")
  have d1: "hdrNeedsHardware d1" using setHSV_store_hdr [of h s v d] st assms(2) by simp
  obtain d2 where mid: "(if n then tellColorChanged E d1 else Inr d1) = Inr d2"
    and d': "d' = setHSV_timers newH d2"
    using assms st by (auto simp add: setHSV_def split: sum.splits)
  have "hdrNeedsHardware d2"
    using mid d1 tellColorChanged_hdr [of E d1 d2] by (cases n) simp_all
  then show ?thesis by (simp add: d' setHSV_timers_inv)
qed

lemma step_hdr:
  assumes "step E e d = Inr d'" "hdrNeedsHardware d"
  shows "hdrNeedsHardware d'"
proof (cases e)
  case (SetHue h)
  then show ?thesis using assms setHue_hdr by simp
next
  case (SetHSV h s v n)
  then show ?thesis using assms setHSV_hdr by simp
next
  case (SetColor c)
  then show ?thesis using assms setColor_hdr by simp
next
  case (SlotHueSliderChanged pos)
  then show ?thesis using assms setHue_hdr
    by (auto simp add: slotHueSliderChanged_def Let_def split: if_splits)
next
  case (SlotValueSliderChanged pos)
  then show ?thesis using assms setHSV_hdr
    by (auto simp add: slotValueSliderChanged_def Let_def split: if_splits)
next
  case (SlotUpdateDynamicRange m)
  then show ?thesis using assms
    by (auto simp add: hdrNeedsHardware_def slotUpdateDynamicRange_fields)
next
  case (SetDisplayColorConverter conv)
  then show ?thesis using assms
    by (auto simp add: setDisplayColorConverter_def slotDisplayConfigurationChanged_hdr)
next
  case SlotDisplayConfigurationChanged
  then show ?thesis using assms by (auto simp add: slotDisplayConfigurationChanged_hdr)
next
  case (ConverterMutated conv)
  then show ?thesis using assms by (auto simp add: hdrNeedsHardware_def split: option.splits)
next
  case (ResizeEvent sz)
  then show ?thesis using assms by (auto simp add: hdrNeedsHardware_def resizeEvent_def)
next
  case ResizeCompressorTimeout
  then show ?thesis using assms by (auto simp add: hdrNeedsHardware_def slotUpdatePalettes_fields)
next
  case ValueSliderCompressorTimeout
  then show ?thesis using assms by (auto simp add: hdrNeedsHardware_def updateSVPalette_fields)
next
  case UpdateTimerTimeout
  then show ?thesis using assms by (auto simp add: hdrNeedsHardware_def)
qed

lemma run_hdr: "run E es d = Inr d' \<Longrightarrow> hdrNeedsHardware d \<Longrightarrow> hdrNeedsHardware d'"
proof (induction es arbitrary: d)
  case Nil
  then show ?case by simp
next
  case (Cons e es)
  then show ?case by (auto split: sum.splits dest: step_hdr)
qed

lemma new_hdr: "\<not> hasHDR (KisSmallColorWidget_new E hw sz gl sl)"
  by (simp add: KisSmallColorWidget_new_def slotUpdatePalettes_fields)

lemma setColor_hasHardwareHDR:
  assumes "setColor E c d = Inr d'"
  shows "hasHardwareHDR d' = hasHardwareHDR d"
proof -
  have sc: "hasHardwareHDR x' = hasHardwareHDR x"
    if "scaleChannels E x r g b = Inr (x', r', g', b')"
    for x x' :: "'a KisSmallColorWidget" and r g b r' g' b'
    using scaleChannels_fields(2) [OF that] .
  show ?thesis using assms
    by (auto simp add: setColor_def Let_def storeRGB_fields afterRecovery_fields
      split: if_splits option.splits sum.splits prod.splits dest: sc)
qed

lemma setColor_hasHDR:
  assumes "setColor E c d = Inr d'" "\<not> (updateAllowed d \<and> \<not> sliderAgreesWithHDR d)"
  shows "hasHDR d' = hasHDR d"
proof -
  have sc: "hasHDR x' = hasHDR x"
    if "scaleChannels E x r g b = Inr (x', r', g', b')"
    for x x' :: "'a KisSmallColorWidget" and r g b r' g' b'
    using scaleChannels_fields(1) [OF that] .
  have ar: "afterRecovery E d = d" if "sliderAgreesWithHDR d"
    using that by (simp add: afterRecovery_def)
  show ?thesis using assms
    by (auto simp add: setColor_def Let_def storeRGB_fields ar
      split: if_splits option.splits sum.splits prod.splits dest: sc)
qed

lemma step_hasHardwareHDR:
  assumes "step E e d = Inr d'"
  shows "hasHardwareHDR d' = hasHardwareHDR d"
  using assms
  by (cases e)
    (auto simp add: setHue_fields setHSV_fields setColor_hasHardwareHDR
      slotHueSliderChanged_def slotValueSliderChanged_def Let_def
      slotUpdateDynamicRange_fields setDisplayColorConverter_fields
      slotDisplayConfigurationChanged_fields resizeEvent_def slotUpdatePalettes_fields
      updateSVPalette_fields split: if_splits option.splits)

lemma step_hasHDR:
  assumes "step E e d = Inr d'" "\<not> runsDisplayConfigurationChanged e d"
  shows "hasHDR d' = hasHDR d"
  using assms
  by (cases e)
    (auto simp add: runsDisplayConfigurationChanged_def setHue_fields setHSV_fields
      slotHueSliderChanged_def slotValueSliderChanged_def Let_def
      slotUpdateDynamicRange_fields resizeEvent_def slotUpdatePalettes_fields
      updateSVPalette_fields split: if_splits option.splits dest: setColor_hasHDR)

lemma run_hasHardwareHDR: "run E es d = Inr d' \<Longrightarrow> hasHardwareHDR d' = hasHardwareHDR d"
proof (induction es arbitrary: d)
  case Nil
  then show ?case by simp
next
  case (Cons e es)
  then show ?case by (auto split: sum.splits dest: step_hasHardwareHDR)
qed

subsection \<open>The range coefficient\<close>



lemma slotUpdateDynamicRange_ge1:
  assumes "1 \<le> currentRelativeDynamicRange d \<or> currentRelativeDynamicRange d \<le> 0"
    and "80 \<le> m"
  shows "1 \<le> currentRelativeDynamicRange (slotUpdateDynamicRange E m d)"
proof -
  have new: "1 \<le> real_of_int m / 80" using assms(2) by simp
  show ?thesis
  proof (cases "qFuzzyCompare (currentRelativeDynamicRange d) (real_of_int m / 80)")
    case True
    then have "\<not> currentRelativeDynamicRange d \<le> 0"
      using qFuzzyCompare_signs [OF _ new] by blast
    then show ?thesis using assms(1) True by (simp add: slotUpdateDynamicRange_range)
  next
    case False
    then show ?thesis using new by (simp add: slotUpdateDynamicRange_range)
  qed
qed

lemma slotUpdateDynamicRange_sign:
  assumes "1 \<le> currentRelativeDynamicRange d" and "80 \<le> m \<or> m \<le> 0"
  shows "1 \<le> currentRelativeDynamicRange (slotUpdateDynamicRange E m d) \<or>
         currentRelativeDynamicRange (slotUpdateDynamicRange E m d) \<le> 0"
proof -
  have "1 \<le> real_of_int m / 80 \<or> real_of_int m / 80 \<le> 0" using assms(2) by auto
  then show ?thesis using assms(1) by (auto simp add: slotUpdateDynamicRange_range)
qed

lemma newMaxLuminanceFor_sign:
  assumes "hasHDR d" "1 \<le> currentRelativeDynamicRange d" "exceedsRange d r g b"
    and "0 < max3 r g b \<longrightarrow> max3 r g b \<le> mul_1_10f E (max3 r g b)"
  shows "80 \<le> newMaxLuminanceFor E d r g b \<or> newMaxLuminanceFor E d r g b \<le> 0"
proof -
  have "1 < max3 r g b"
    using assms(1,2,3)
    by (auto simp add: exceedsRange_def effectiveRelativeDynamicRange_def max3_def Let_def)
  then have "1 < mul_1_10f E (max3 r g b)" using assms(4) by linarith
  then have "80 \<le> 80 * rangeCoeffFor E d r g b"
    using assms(3) by (simp add: rangeCoeffFor_def)
  then show ?thesis using qRound_from_80 by (simp add: newMaxLuminanceFor_def)
qed

lemma publishRange_ge1:
  assumes emits: "\<forall>sl v. \<exists>sl' v'. setValue E sl v = (sl', Some v') \<and> 80 \<le> v'"
    and "publishRange E m d = Inr d'" "1 \<le> currentRelativeDynamicRange d"
    and "80 \<le> m \<or> m \<le> 0"
  shows "1 \<le> currentRelativeDynamicRange d'"
proof -
  let ?d1 = "slotUpdateDynamicRange E m d"
  have d1: "1 \<le> currentRelativeDynamicRange ?d1 \<or> currentRelativeDynamicRange ?d1 \<le> 0"
    using slotUpdateDynamicRange_sign [OF assms(3,4)] .
  obtain sl where sl: "dynamicRange ?d1 = Some sl"
    using assms(2) by (auto simp add: publishRange_def Let_def split: option.splits)
  obtain sl' v where sv: "setValue E sl m = (sl', Some v)" and v: "80 \<le> v"
    using emits by blast
  let ?d2 = "?d1\<lparr>dynamicRange := Some sl'\<rparr>"
  have d2: "1 \<le> currentRelativeDynamicRange ?d2 \<or> currentRelativeDynamicRange ?d2 \<le> 0"
    using d1 by simp
  have "d' = slotUpdateDynamicRange E v ?d2"
    using assms(2) sl sv by (simp add: publishRange_def Let_def)
  then show ?thesis using slotUpdateDynamicRange_ge1 [OF d2 v] by simp
qed

lemma scaleChannels_ge1:
  assumes emits: "\<forall>sl v. \<exists>sl' v'. setValue E sl v = (sl', Some v') \<and> 80 \<le> v'"
    and floats: "\<forall>m. 0 < m \<longrightarrow> m \<le> mul_1_10f E m"
    and "scaleChannels E d r g b = Inr (d', r', g', b')" "1 \<le> currentRelativeDynamicRange d"
  shows "1 \<le> currentRelativeDynamicRange d'"
proof (cases "hasHDR d \<and> exceedsRange d r g b")
  case True
  then have p: "publishRange E (newMaxLuminanceFor E d r g b) d = Inr d'"
    using assms(3) by (auto simp add: scaleChannels_def Let_def split: sum.splits)
  have "80 \<le> newMaxLuminanceFor E d r g b \<or> newMaxLuminanceFor E d r g b \<le> 0"
    using newMaxLuminanceFor_sign [of d r g b E] True assms(4) floats by blast
  then show ?thesis using publishRange_ge1 [OF emits p assms(4)] by blast
next
  case False
  then have "d' = d" using assms(3) by (auto simp add: scaleChannels_def Let_def split: if_splits)
  then show ?thesis using assms(4) by simp
qed

lemma setColor_ge1:
  assumes emits: "\<forall>sl v. \<exists>sl' v'. setValue E sl v = (sl', Some v') \<and> 80 \<le> v'"
    and floats: "\<forall>m. 0 < m \<longrightarrow> m \<le> mul_1_10f E m"
    and "setColor E c d = Inr d'" "1 \<le> currentRelativeDynamicRange d"
  shows "1 \<le> currentRelativeDynamicRange d'"
proof -
  have sc: "1 \<le> currentRelativeDynamicRange x'"
    if "scaleChannels E (afterRecovery E d) r g b = Inr (x', r', g', b')" for x' r g b r' g' b'
    using scaleChannels_ge1 [OF emits floats that] assms(4) by (simp add: afterRecovery_fields)
  show ?thesis
    using assms(3,4)
    by (auto simp add: setColor_def Let_def storeRGB_range afterRecovery_fields
        split: if_splits option.splits sum.splits prod.splits dest: sc)
qed

lemma step_ge1:
  assumes emits: "\<forall>sl v. \<exists>sl' v'. setValue E sl v = (sl', Some v') \<and> 80 \<le> v'"
    and floats: "\<forall>m. 0 < m \<longrightarrow> m \<le> mul_1_10f E m"
    and "step E e d = Inr d'" "1 \<le> currentRelativeDynamicRange d" "fromSlider e"
  shows "1 \<le> currentRelativeDynamicRange d'"
proof (cases e)
  case (SetColor c)
  then show ?thesis using assms(3,4) setColor_ge1 [OF emits floats] by simp
next
  case (SlotUpdateDynamicRange m)
  then show ?thesis
    using assms(3,4,5) slotUpdateDynamicRange_ge1 [of d m E] by (auto simp add: fromSlider_def)
qed (use assms(3,4) in \<open>auto simp add: setHue_fields setHSV_fields
      slotHueSliderChanged_def slotValueSliderChanged_def Let_def
      setDisplayColorConverter_fields slotDisplayConfigurationChanged_fields resizeEvent_def
      slotUpdatePalettes_fields updateSVPalette_def split: if_splits option.splits\<close>)

lemma run_ge1:
  assumes emits: "\<forall>sl v. \<exists>sl' v'. setValue E sl v = (sl', Some v') \<and> 80 \<le> v'"
    and floats: "\<forall>m. 0 < m \<longrightarrow> m \<le> mul_1_10f E m"
  shows "run E es d = Inr d' \<Longrightarrow> 1 \<le> currentRelativeDynamicRange d \<Longrightarrow>
     list_all fromSlider es \<Longrightarrow> 1 \<le> currentRelativeDynamicRange d'"
proof (induction es arbitrary: d)
  case Nil
  then show ?case by simp
next
  case (Cons e es)
  then show ?case by (auto split: sum.splits dest: step_ge1 [OF emits floats])
qed

lemma range_at_least_one:
  assumes "\<forall>sl v. \<exists>sl' v'. setValue E sl v = (sl', Some v') \<and> 80 \<le> v'"
    and "\<forall>m. 0 < m \<longrightarrow> m \<le> mul_1_10f E m"
    and "run E es (KisSmallColorWidget_new E useHDRMode sz gl sl) = Inr d"
    and "list_all fromSlider es"
  shows "1 \<le> currentRelativeDynamicRange d" "0 < effectiveRelativeDynamicRange d"
proof -
  show "1 \<le> currentRelativeDynamicRange d"
    using run_ge1 [OF assms(1) assms(2) assms(3) _ assms(4)] by (simp add: new_fields)
  then show "0 < effectiveRelativeDynamicRange d"
    by (simp add: effectiveRelativeDynamicRange_def)
qed

subsection \<open>The sample widgets\<close>

lemma sampleShown_fields:
  "hue (sampleShown hw depth) = 0"
  "saturation (sampleShown hw depth) = 0"
  "value (sampleShown hw depth) = 0"
  "hasHardwareHDR (sampleShown hw depth) = hw"
  "currentRelativeDynamicRange (sampleShown hw depth) = 1"
  "displayColorConverter (sampleShown hw depth) = Some (sampleConverter depth)"
  "updateAllowed (sampleShown hw depth)"
  "hasHDR (sampleShown hw depth) \<longleftrightarrow>
     hw \<and> (depth = Float16BitsColorDepthID \<or> depth = Float32BitsColorDepthID \<or>
           depth = Float64BitsColorDepthID)"
  by (simp_all add: sampleShown_def sampleWidget_def setDisplayColorConverter_fields new_fields
      isHDRColorSpace_def sampleConverter_def)

lemma sampleShown_noSlider: "dynamicRange (sampleShown False depth) = None"
  by (simp add: sampleShown_def sampleWidget_def setDisplayColorConverter_def
      slotDisplayConfigurationChanged_def Let_def slotUpdatePalettes_fields
      KisSmallColorWidget_new_def)


section \<open>The claims\<close>




text \<open>
  Claim C3. When the display conversion is skipped, the pixel in column \<open>x\<close> and row \<open>y\<close> of
  the hue palette is \<open>HSVToRGB (360 * x / width, 1, 1)\<close>, and that of the saturation-value
  palette is \<open>HSVToRGB (hue * 360, x / width, 1 - y / height)\<close>, each channel multiplied by the
  effective relative dynamic range, with alpha 1. The hue palette has the widget's width and
  the preferred hue height, the other palette the widget's size.
\<close>

theorem palette_images_per_pixel:
  assumes "skipsDisplayConversion E d" and "widgetSize d = (w, h)" and "x < nat w"
  shows "(y < nat (huePreferredHeight d) \<longrightarrow>
            imageData (loadedImage (hueWidget (updateHuePalette E d))) ! (y * nat w + x) =
              (case HSVToRGB E (360 * real x / real_of_int w) 1 1 of
                 (r, g, b) \<Rightarrow>
                   (r * effectiveRelativeDynamicRange d, g * effectiveRelativeDynamicRange d,
                    b * effectiveRelativeDynamicRange d, 1))) \<and>
         (y < nat h \<longrightarrow>
            imageData (loadedImage (valueWidget (updateSVPalette E d))) ! (y * nat w + x) =
              (case HSVToRGB E (hue d * 360) (real x / real_of_int w)
                      (1 - real y / real_of_int h) of
                 (r, g, b) \<Rightarrow>
                   (r * effectiveRelativeDynamicRange d, g * effectiveRelativeDynamicRange d,
                    b * effectiveRelativeDynamicRange d, 1))) \<and>
         length (imageData (loadedImage (hueWidget (updateHuePalette E d)))) =
           nat (huePreferredHeight d) * nat w \<and>
         length (imageData (loadedImage (valueWidget (updateSVPalette E d)))) = nat h * nat w"
proof -
  have w: "0 < w" using assms(3) by simp
  have hueImg: "imageData (loadedImage (hueWidget (updateHuePalette E d))) =
      fillPixels (palettePixel E FillHPolicy d (w, huePreferredHeight d)) w (huePreferredHeight d)"
    by (simp add: updateHuePalette_skip [OF assms(1)] assms(2))
  have svImg: "imageData (loadedImage (valueWidget (updateSVPalette E d))) =
      fillPixels (palettePixel E FillSVPolicy d (w, h)) w h"
    by (simp add: updateSVPalette_skip [OF assms(1)] assms(2))
  show ?thesis
    by (simp add: hueImg svImg fillPixels_nth [OF assms(3)] fillPixels_length
        palettePixel_hue [OF w] palettePixel_sv)
qed

theorem palette_images_per_pixel_witness:
  "skipsDisplayConversion sampleEnv sampleSized \<and> widgetSize sampleSized = (4, 2) \<and>
   imageData (loadedImage (hueWidget (updateHuePalette sampleEnv sampleSized))) ! (1 * nat 4 + 3)
     = (1, 0, 0, 1) \<and>
   imageData (loadedImage (valueWidget (updateSVPalette sampleEnv sampleSized))) ! (1 * nat 4 + 3)
     = (1 / 2, 1 / 8, 1 / 8, 1)"
proof -
  have conv: "displayColorConverter sampleSized = Some (sampleConverter Float32BitsColorDepthID)"
    by (simp add: sampleSized_def sampleShown_fields)
  have skip: "skipsDisplayConversion sampleEnv sampleSized"
    by (simp add: skipsDisplayConversion_def conv sampleConverter_def)
  have sz: "widgetSize sampleSized = (4, 2)" by (simp add: sampleSized_def)
  have x: "(3::nat) < nat 4" by simp
  have hp: "huePreferredHeight sampleSized = 32"
    by (simp add: sampleSized_def sampleShown_def sampleWidget_def setDisplayColorConverter_def
        slotDisplayConfigurationChanged_def Let_def slotUpdatePalettes_def updateSVPalette_def
        updateHuePalette_def KisSmallColorWidget_new_def split: option.splits)
  have rc: "effectiveRelativeDynamicRange sampleSized = 1"
    by (simp add: effectiveRelativeDynamicRange_def sampleSized_def sampleShown_fields)
  have h: "hue sampleSized = 1 / 2" by (simp add: sampleSized_def)
  have toRGB: "HSVToRGB sampleEnv a b c = (c, c * (1 - b), c * (1 - b))" for a b c
    by (simp add: sampleEnv_def)
  show ?thesis
    using palette_images_per_pixel [OF skip sz x, of 1]
    by (simp add: skip sz hp rc h toRGB)
qed




text \<open>
  Claim C5. With \<open>cs\<close> the painting colour space if its model is RGBA and \<open>rgb8\<close> otherwise:
  \<open>tellColorChanged\<close> emits the colour built in \<open>cs\<close> from the channel vector (b, g, r, 1)
  when \<open>cs\<close> has 8 bit integer depth and from (r, g, b, 1) otherwise; \<open>setColor\<close> converts the
  colour to \<open>cs\<close> and reads r, g, b from entries 2, 1, 0 of its channel vector when \<open>cs\<close> has
  8 bit integer depth and from entries 0, 1, 2 otherwise.
\<close>

theorem color_space_aware_channels:
  assumes "displayColorConverter d = Some conv"
    and "cs = (if colorModelId (paintingColorSpace conv) \<noteq> RGBAColorModelID
               then rgb8 E else paintingColorSpace conv)"
  shows "(\<exists>d'. tellColorChanged E d = Inr d' \<and>
            last (colorChanged d') =
              fromNormalisedChannelsValue E cs
                (case outgoingRGB E d of
                   (r, g, b) \<Rightarrow>
                     if colorDepthId cs = Integer8BitsColorDepthID
                     then (b, g, r, 1) else (r, g, b, 1))) \<and>
         (updateAllowed d \<and> sliderAgreesWithHDR d \<and> (hasHDR d \<longrightarrow> hasHardwareHDR d) \<longrightarrow>
            setColor E color d =
              (case convertedChannels E cs color of
                 (c0, c1, c2, c3) \<Rightarrow>
                   (case (if colorDepthId cs = Integer8BitsColorDepthID
                          then scaleChannels E d c2 c1 c0 else scaleChannels E d c0 c1 c2) of
                      Inl e \<Rightarrow> Inl e
                    | Inr (d2, r', g', b') \<Rightarrow> Inr (storeRGB E r' g' b' d2))))"
proof -
  have cs: "handlingColorSpace E conv = cs"
    by (simp add: handlingColorSpace_def assms(2))
  have tell: "\<exists>d'. tellColorChanged E d = Inr d' \<and>
            last (colorChanged d') =
              fromNormalisedChannelsValue E cs
                (case outgoingRGB E d of
                   (r, g, b) \<Rightarrow>
                     if colorDepthId cs = Integer8BitsColorDepthID
                     then (b, g, r, 1) else (r, g, b, 1))"
    by (simp add: tellColorChanged_result assms(1) outgoingColor_def outgoingRGB_updateAllowed
        cs writeRGB_def split: prod.splits)
  have set: "setColor E color d =
              (case convertedChannels E cs color of
                 (c0, c1, c2, c3) \<Rightarrow>
                   (case (if colorDepthId cs = Integer8BitsColorDepthID
                          then scaleChannels E d c2 c1 c0 else scaleChannels E d c0 c1 c2) of
                      Inl e \<Rightarrow> Inl e
                    | Inr (d2, r', g', b') \<Rightarrow> Inr (storeRGB E r' g' b' d2)))"
    if "updateAllowed d" "sliderAgreesWithHDR d" "hasHDR d \<longrightarrow> hasHardwareHDR d"
    using that
    by (auto simp add: setColor_def afterRecovery_agrees assms(1) cs readRGB_def Let_def
        split: prod.splits)
  show ?thesis using tell set by blast
qed

theorem color_space_aware_channels_witness:
  "(\<exists>d'. tellColorChanged sampleEnv
            ((sampleShown False Integer8BitsColorDepthID)\<lparr>saturation := 1 / 2, value := 1\<rparr>)
          = Inr d' \<and> last (colorChanged d') = (1 / 2, 1 / 2, 1, 1)) \<and>
   (\<exists>d'. tellColorChanged sampleEnv
            ((sampleShown False Float32BitsColorDepthID)\<lparr>saturation := 1 / 2, value := 1\<rparr>)
          = Inr d' \<and> last (colorChanged d') = (1, 1 / 2, 1 / 2, 1)) \<and>
   (\<exists>d'. tellColorChanged sampleEnv sampleCMYK = Inr d' \<and>
          last (colorChanged d') = (1 / 2, 1 / 2, 1, 1)) \<and>
   setColor sampleEnv (1 / 4, 1 / 2, 3 / 4, 1) (sampleShown False Integer8BitsColorDepthID) =
     Inr (storeRGB sampleEnv (3 / 4) (1 / 2) (1 / 4) (sampleShown False Integer8BitsColorDepthID)) \<and>
   setColor sampleEnv (1 / 4, 1 / 2, 3 / 4, 1) (sampleShown False Float32BitsColorDepthID) =
     Inr (storeRGB sampleEnv (1 / 4) (1 / 2) (3 / 4) (sampleShown False Float32BitsColorDepthID))"
proof -
  let ?s8 = "sampleShown False Integer8BitsColorDepthID"
  let ?s32 = "sampleShown False Float32BitsColorDepthID"
  let ?d8 = "?s8\<lparr>saturation := 1 / 2, value := 1\<rparr>"
  let ?d32 = "?s32\<lparr>saturation := 1 / 2, value := 1\<rparr>"
  let ?cmyk = "(sampleConverter Float32BitsColorDepthID)
             \<lparr>paintingColorSpace :=
                \<lparr>colorModelId = OtherColorModelID ''CMYKA'',
                 colorDepthId = Float32BitsColorDepthID, profile = ''cmyk''\<rparr>\<rparr>"
  have rgb: "outgoingRGB sampleEnv ?d8 = (1, 1 / 2, 1 / 2)"
    "outgoingRGB sampleEnv ?d32 = (1, 1 / 2, 1 / 2)"
    "outgoingRGB sampleEnv sampleCMYK = (1, 1 / 2, 1 / 2)"
    by (simp_all add: outgoingRGB_def sampleShown_fields sampleEnv_def sampleCMYK_def)
  have env: "fromNormalisedChannelsValue sampleEnv c v = v" "convertedChannels sampleEnv c v = v"
    "colorDepthId (rgb8 sampleEnv) = Integer8BitsColorDepthID" for c v
    by (simp_all add: sampleEnv_def)
  have c8: "displayColorConverter ?d8 = Some (sampleConverter Integer8BitsColorDepthID)"
    and c32: "displayColorConverter ?d32 = Some (sampleConverter Float32BitsColorDepthID)"
    and cc: "displayColorConverter sampleCMYK = Some ?cmyk"
    and s8: "displayColorConverter ?s8 = Some (sampleConverter Integer8BitsColorDepthID)"
    and s32: "displayColorConverter ?s32 = Some (sampleConverter Float32BitsColorDepthID)"
    by (simp_all add: sampleShown_fields sampleCMYK_def)
  have pre: "updateAllowed (sampleShown False depth) \<and> sliderAgreesWithHDR (sampleShown False depth) \<and>
      \<not> hasHDR (sampleShown False depth)" for depth
    by (simp add: sampleShown_fields sliderAgreesWithHDR_def sampleShown_noSlider)
  have clamp: "qBound 0 (1 / 4) 1 = 1 / 4" "qBound 0 (1 / 2) 1 = 1 / 2" "qBound 0 (3 / 4) 1 = 3 / 4"
    by (simp_all add: qBound_def qMax_def qMin_def)
  show ?thesis
    using color_space_aware_channels [OF c8 refl, of sampleEnv "(0, 0, 0, 1)"]
      color_space_aware_channels [OF c32 refl, of sampleEnv "(0, 0, 0, 1)"]
      color_space_aware_channels [OF cc refl, of sampleEnv "(0, 0, 0, 1)"]
      color_space_aware_channels [OF s8 refl, of sampleEnv "(1 / 4, 1 / 2, 3 / 4, 1)"]
      color_space_aware_channels [OF s32 refl, of sampleEnv "(1 / 4, 1 / 2, 3 / 4, 1)"]
    by (simp add: rgb env sampleConverter_def pre scaleChannels_noHDR clamp)
qed

text \<open>
  Claim C7. In a widget without active HDR the effective relative dynamic range is 1, and the
  scaling step of \<open>setColor\<close> leaves the widget as it is and clamps each channel to [0, 1].
  \<open>setColor\<close>, arriving in such a state \<open>d\<close> after its first assertion, stores the HSV
  conversion of the clamped channels.
\<close>

theorem no_scaling_without_hdr:
  assumes "\<not> hasHDR d"
  shows "effectiveRelativeDynamicRange d = 1 \<and>
         scaleChannels E d r g b = Inr (d, qBound 0.0 r 1.0, qBound 0.0 g 1.0, qBound 0.0 b 1.0) \<and>
         0 \<le> qBound 0.0 r 1.0 \<and> qBound 0.0 r 1.0 \<le> 1 \<and>
         0 \<le> qBound 0.0 g 1.0 \<and> qBound 0.0 g 1.0 \<le> 1 \<and>
         0 \<le> qBound 0.0 b 1.0 \<and> qBound 0.0 b 1.0 \<le> 1 \<and>
         (\<forall>d0 conv color.
            afterRecovery E d0 = d \<and> updateAllowed d0 \<and>
            (sliderAgreesWithHDR d0 \<or> safeAssertRecovers E) \<and>
            displayColorConverter d = Some conv \<and>
            readRGB (handlingColorSpace E conv)
              (convertedChannels E (handlingColorSpace E conv) color) = (r, g, b) \<longrightarrow>
            setColor E color d0 =
              Inr (storeRGB E (qBound 0.0 r 1.0) (qBound 0.0 g 1.0) (qBound 0.0 b 1.0) d)) \<and>
         hue (storeRGB E (qBound 0.0 r 1.0) (qBound 0.0 g 1.0) (qBound 0.0 b 1.0) d) =
           qBound 0.0
             (fst (RGBToHSV E (qBound 0.0 r 1.0) (qBound 0.0 g 1.0) (qBound 0.0 b 1.0)) / 360.0)
             1.0 \<and>
         saturation (storeRGB E (qBound 0.0 r 1.0) (qBound 0.0 g 1.0) (qBound 0.0 b 1.0) d) =
           qBound 0.0
             (fst (snd (RGBToHSV E (qBound 0.0 r 1.0) (qBound 0.0 g 1.0) (qBound 0.0 b 1.0))))
             1.0 \<and>
         value (storeRGB E (qBound 0.0 r 1.0) (qBound 0.0 g 1.0) (qBound 0.0 b 1.0) d) =
           qBound 0.0
             (snd (snd (RGBToHSV E (qBound 0.0 r 1.0) (qBound 0.0 g 1.0) (qBound 0.0 b 1.0))))
             1.0"
proof -
  have set: "setColor E color d0 =
      Inr (storeRGB E (qBound 0.0 r 1.0) (qBound 0.0 g 1.0) (qBound 0.0 b 1.0) d)"
    if "afterRecovery E d0 = d" "updateAllowed d0" "sliderAgreesWithHDR d0 \<or> safeAssertRecovers E"
      "displayColorConverter d = Some conv"
      "readRGB (handlingColorSpace E conv)
         (convertedChannels E (handlingColorSpace E conv) color) = (r, g, b)"
    for d0 conv color
    using that assms
    by (auto simp add: setColor_def Let_def scaleChannels_noHDR)
  show ?thesis
    using assms set
    by (simp add: effectiveRelativeDynamicRange_def scaleChannels_noHDR qBound_unit
        storeRGB_hsv_fields)
qed

theorem no_scaling_without_hdr_witness:
  "\<not> hasHDR (sampleShown False Float32BitsColorDepthID) \<and>
   effectiveRelativeDynamicRange (sampleShown False Float32BitsColorDepthID) = 1 \<and>
   setColor sampleEnv (2, 1 / 2, - 1, 1) (sampleShown False Float32BitsColorDepthID) =
     Inr (storeRGB sampleEnv 1 (1 / 2) 0 (sampleShown False Float32BitsColorDepthID))"
proof -
  let ?d = "sampleShown False Float32BitsColorDepthID"
  have n: "\<not> hasHDR ?d" by (simp add: sampleShown_fields)
  have ag: "sliderAgreesWithHDR ?d" by (simp add: sliderAgreesWithHDR_def sampleShown_noSlider)
  have rd: "readRGB (handlingColorSpace sampleEnv (sampleConverter Float32BitsColorDepthID))
      (convertedChannels sampleEnv
         (handlingColorSpace sampleEnv (sampleConverter Float32BitsColorDepthID))
         (2, 1 / 2, - 1, 1)) = (2, 1 / 2, - 1)"
    by (simp add: readRGB_def handlingColorSpace_def sampleConverter_def sampleEnv_def)
  show ?thesis
    using no_scaling_without_hdr [OF n, of sampleEnv 2 "1 / 2" "- 1"] ag rd
      afterRecovery_agrees [OF ag, of sampleEnv]
    by (simp add: sampleShown_fields qBound_def qMax_def qMin_def)
qed

text \<open>
  Claim C8. Hue, saturation and value lie in [0, 1] in every state that a sequence of events
  reaches from a newly constructed widget. The two operations that write them store
  \<open>qBound(0.0, x, 1.0)\<close> of each component they are given.
\<close>

theorem hsv_stays_in_unit_interval:
  "(\<forall>d. run E es (KisSmallColorWidget_new E useHDRMode sz gl sl) = Inr d \<longrightarrow> hsvInUnit d) \<and>
   (\<forall>d'. setHue E h d0 = Inr d' \<longrightarrow>
      hue d' = qBound 0.0 h 1.0 \<and> saturation d' = saturation d0 \<and> value d' = value d0) \<and>
   (\<forall>d'. setHSV E h s v n d0 = Inr d' \<longrightarrow>
      hue d' = qBound 0.0 h 1.0 \<and> saturation d' = qBound 0.0 s 1.0 \<and>
      value d' = qBound 0.0 v 1.0)"
proof -
  have a: "hsvInUnit d" if "run E es (KisSmallColorWidget_new E useHDRMode sz gl sl) = Inr d" for d
    using run_hsv [OF that new_hsv] .
  have b: "hue d' = qBound 0.0 h 1.0 \<and> saturation d' = saturation d0 \<and> value d' = value d0"
    if "setHue E h d0 = Inr d'" for d'
    using that
    by (auto simp add: setHue_def Let_def tellColorChanged_result split: sum.splits option.splits)
  have c: "hue d' = qBound 0.0 h 1.0 \<and> saturation d' = qBound 0.0 s 1.0 \<and>
      value d' = qBound 0.0 v 1.0"
    if "setHSV E h s v n d0 = Inr d'" for d'
    using that
    by (auto simp add: setHSV_def setHSV_store_def setHSV_timers_def Let_def tellColorChanged_result
        split: sum.splits option.splits if_splits)
  show ?thesis using a b c by blast
qed

theorem hsv_stays_in_unit_interval_witness:
  "\<exists>d. run sampleEnv
         [SetDisplayColorConverter (Some (sampleConverter Integer8BitsColorDepthID)),
          SetHSV 2 (- 1) (1 / 2) True]
         (KisSmallColorWidget_new sampleEnv False (1, 1) sampleGLWidget sampleSlider) = Inr d \<and>
       hsvInUnit d \<and> hue d = 1 \<and> saturation d = 0 \<and> value d = 1 / 2"
proof -
  let ?d0 = "sampleShown False Integer8BitsColorDepthID"
  let ?es = "[SetDisplayColorConverter (Some (sampleConverter Integer8BitsColorDepthID)),
          SetHSV 2 (- 1) (1 / 2) True]"
  have r: "run sampleEnv ?es (KisSmallColorWidget_new sampleEnv False (1, 1) sampleGLWidget sampleSlider)
      = setHSV sampleEnv 2 (- 1) (1 / 2) True ?d0"
    by (simp add: sampleShown_def sampleWidget_def split: sum.splits)
  have "\<exists>d. setHSV sampleEnv 2 (- 1) (1 / 2) True ?d0 = Inr d"
    by (simp add: setHSV_def setHSV_store_def Let_def tellColorChanged_result sampleShown_fields)
  then obtain d where d: "setHSV sampleEnv 2 (- 1) (1 / 2) True ?d0 = Inr d" ..
  have "hsvInUnit d \<and> hue d = qBound 0 2 1 \<and> saturation d = qBound 0 (- 1) 1 \<and>
      value d = qBound 0 (1 / 2) 1"
    using hsv_stays_in_unit_interval [of sampleEnv ?es False "(1, 1)" sampleGLWidget sampleSlider
        2 ?d0 "- 1" "1 / 2" True] r d
    by simp
  then show ?thesis using r d by (simp add: qBound_def qMax_def qMin_def)
qed

text \<open>
  Claim C9. \<open>hasHDR\<close> is false in a new widget; in every state reached from it
  \<open>hasHardwareHDR\<close> is what the constructor read, and \<open>hasHDR\<close> implies it; an event in
  which \<open>slotDisplayConfigurationChanged\<close> does not run leaves \<open>hasHDR\<close> as it was; and
  that slot sets it exactly when the hardware has HDR, a converter is set, and its painting
  colour space is RGBA with 16, 32 or 64 bit float depth.
\<close>

theorem hasHDR_implies_hasHardwareHDR:
  "\<not> hasHDR (KisSmallColorWidget_new E useHDRMode sz gl sl) \<and>
   (\<forall>d. run E es (KisSmallColorWidget_new E useHDRMode sz gl sl) = Inr d \<longrightarrow>
      hasHardwareHDR d = useHDRMode \<and> (hasHDR d \<longrightarrow> hasHardwareHDR d)) \<and>
   (\<forall>d'. step E e d0 = Inr d' \<and> \<not> runsDisplayConfigurationChanged e d0 \<longrightarrow>
      hasHDR d' = hasHDR d0) \<and>
   (hasHDR (slotDisplayConfigurationChanged E d0) \<longleftrightarrow>
      hasHardwareHDR d0 \<and>
      (case displayColorConverter d0 of
         None \<Rightarrow> False
       | Some conv \<Rightarrow>
           colorModelId (paintingColorSpace conv) = RGBAColorModelID \<and>
           (colorDepthId (paintingColorSpace conv) = Float16BitsColorDepthID \<or>
            colorDepthId (paintingColorSpace conv) = Float32BitsColorDepthID \<or>
            colorDepthId (paintingColorSpace conv) = Float64BitsColorDepthID)))"
proof -
  let ?new = "KisSmallColorWidget_new E useHDRMode sz gl sl"
  have init: "hdrNeedsHardware ?new" by (simp add: hdrNeedsHardware_def new_hdr)
  have inv: "hasHardwareHDR d = useHDRMode \<and> (hasHDR d \<longrightarrow> hasHardwareHDR d)"
    if "run E es ?new = Inr d" for d
    using run_hdr [OF that init] run_hasHardwareHDR [OF that]
    by (simp add: hdrNeedsHardware_def new_fields)
  have keep: "hasHDR d' = hasHDR d0"
    if "step E e d0 = Inr d' \<and> \<not> runsDisplayConfigurationChanged e d0" for d'
    using that step_hasHDR by blast
  have slot: "hasHDR (slotDisplayConfigurationChanged E d0) \<longleftrightarrow>
      hasHardwareHDR d0 \<and>
      (case displayColorConverter d0 of
         None \<Rightarrow> False
       | Some conv \<Rightarrow>
           colorModelId (paintingColorSpace conv) = RGBAColorModelID \<and>
           (colorDepthId (paintingColorSpace conv) = Float16BitsColorDepthID \<or>
            colorDepthId (paintingColorSpace conv) = Float32BitsColorDepthID \<or>
            colorDepthId (paintingColorSpace conv) = Float64BitsColorDepthID))"
    by (simp add: slotDisplayConfigurationChanged_hasHDR isHDRColorSpace_def
        split: option.splits)
  from new_hdr [of E useHDRMode sz gl sl] inv keep slot show ?thesis
    by (intro conjI allI impI) blast+
qed

theorem hasHDR_implies_hasHardwareHDR_witness:
  "\<exists>d. run sampleEnv [SetDisplayColorConverter (Some (sampleConverter Float16BitsColorDepthID))]
         (KisSmallColorWidget_new sampleEnv True (1, 1) sampleGLWidget sampleSlider) = Inr d \<and>
       hasHDR d \<and> hasHardwareHDR d \<and>
       \<not> hasHDR (setDisplayColorConverter sampleEnv
            (Some (sampleConverter Float16BitsColorDepthID))
            (KisSmallColorWidget_new sampleEnv False (1, 1) sampleGLWidget sampleSlider)) \<and>
       step sampleEnv UpdateTimerTimeout d = Inr (d\<lparr>updateTimer := False\<rparr>) \<and>
       hasHDR (d\<lparr>updateTimer := False\<rparr>)"
proof -
  let ?es = "[SetDisplayColorConverter (Some (sampleConverter Float16BitsColorDepthID))]"
  let ?d = "sampleShown True Float16BitsColorDepthID"
  have r: "run sampleEnv ?es (KisSmallColorWidget_new sampleEnv True (1, 1) sampleGLWidget sampleSlider)
      = Inr ?d"
    by (simp add: sampleShown_def sampleWidget_def)
  have "hasHardwareHDR ?d = True \<and> (hasHDR ?d \<longrightarrow> hasHardwareHDR ?d)"
    using hasHDR_implies_hasHardwareHDR [of sampleEnv True "(1, 1)" sampleGLWidget sampleSlider
        ?es UpdateTimerTimeout ?d] r
    by simp
  moreover have "hasHDR ?d" by (simp add: sampleShown_fields)
  moreover have "\<not> hasHDR (setDisplayColorConverter sampleEnv
            (Some (sampleConverter Float16BitsColorDepthID))
            (KisSmallColorWidget_new sampleEnv False (1, 1) sampleGLWidget sampleSlider))"
    by (simp add: setDisplayColorConverter_fields new_fields)
  ultimately show ?thesis using r by simp
qed

text \<open>
  Claim C10. \<open>setColor\<close> returns at once, with the widget exactly as it was, whenever
  \<open>updateAllowed\<close> is false, and so does any sequence of \<open>setColor\<close> calls. While
  \<open>tellColorChanged\<close> emits \<open>colorChanged\<close> the flag is false, so whatever the connected slots
  pass to \<open>setColor\<close>, a widget with a converter comes out of \<open>tellColorChanged\<close> changed
  in two fields only: \<open>updateAllowed\<close> is true again and the emitted colour is logged. Hue,
  saturation, value and the dynamic range are as before.
\<close>

theorem setColor_reentrancy_guard:
  "(\<not> updateAllowed d \<longrightarrow> setColor E c d = Inr d \<and> setColors E cs d = Inr d) \<and>
   (\<forall>conv. displayColorConverter d = Some conv \<longrightarrow>
      tellColorChanged E d =
        Inr (d\<lparr>updateAllowed := True,
               colorChanged := colorChanged d @
                 [outgoingColor E conv (d\<lparr>updateAllowed := False\<rparr>)]\<rparr>))"
  by (simp add: setColor_blocked setColors_blocked tellColorChanged_result)

theorem setColor_reentrancy_guard_witness:
  "setColor sampleEnv (1, 1, 1, 1) ((sampleShown False Float32BitsColorDepthID)\<lparr>updateAllowed := False\<rparr>)
     = Inr ((sampleShown False Float32BitsColorDepthID)\<lparr>updateAllowed := False\<rparr>) \<and>
   colorChanged_slots sampleEnv (0, 0, 0, 1) = [(0, 0, 0, 1), (0, 0, 0, 1)] \<and>
   tellColorChanged sampleEnv (sampleShown False Float32BitsColorDepthID) =
     Inr ((sampleShown False Float32BitsColorDepthID)
            \<lparr>updateAllowed := True,
             colorChanged := colorChanged (sampleShown False Float32BitsColorDepthID) @ [(0, 0, 0, 1)]\<rparr>)"
proof -
  have oc: "outgoingColor sampleEnv (sampleConverter Float32BitsColorDepthID)
      ((sampleShown False Float32BitsColorDepthID)\<lparr>updateAllowed := False\<rparr>) = (0, 0, 0, 1)"
    by (simp add: outgoingColor_def outgoingRGB_def sampleShown_fields sampleEnv_def
        handlingColorSpace_def sampleConverter_def writeRGB_def)
  show ?thesis
    using setColor_reentrancy_guard [of "(sampleShown False Float32BitsColorDepthID)\<lparr>updateAllowed := False\<rparr>"
        sampleEnv "(1, 1, 1, 1)" "[]"]
      setColor_reentrancy_guard [of "sampleShown False Float32BitsColorDepthID" sampleEnv "(1, 1, 1, 1)" "[]"]
    by (simp add: sampleShown_fields oc) (simp add: sampleEnv_def)
qed

end
